theory Spec2Isabelle
  imports Main "HOL-Library.AList" "HOL-Library.Sublist"
begin

section \<open>Python values and dictionaries\<close>

text \<open>
  JSON-representable Python values. Parameters of a step are such values
  (\<^verbatim>\<open>is_json_serializable\<close> is checked on every parameter).
\<close>

datatype pyval =
    VNone
  | VBool bool
  | VInt int
  | VStr string
  | VList "pyval list"
  | VDict "(string \<times> pyval) list"

text \<open>
  A Python \<^verbatim>\<open>dict\<close> with string keys: an association list in insertion
  order. \<^verbatim>\<open>d[k] = v\<close> replaces the value in place when the key exists and
  appends the pair otherwise, which is \<^const>\<open>AList.update\<close>.
\<close>

type_synonym 'v dict = "(string \<times> 'v) list"

definition dict_get :: "'v dict \<Rightarrow> string \<Rightarrow> 'v option" where
  "dict_get d k = map_of d k"

definition dict_set :: "'v dict \<Rightarrow> string \<Rightarrow> 'v \<Rightarrow> 'v dict" where
  "dict_set d k v = AList.update k v d"

definition dict_keys :: "'v dict \<Rightarrow> string list" where
  "dict_keys d = map fst d"

definition dict_contains :: "string \<Rightarrow> 'v dict \<Rightarrow> bool" where
  "dict_contains k d = (k \<in> set (dict_keys d))"

text \<open>\<^verbatim>\<open>{**d, **u}\<close> and \<^verbatim>\<open>d.update(u)\<close>.\<close>

definition dict_update :: "'v dict \<Rightarrow> 'v dict \<Rightarrow> 'v dict" where
  "dict_update d u = fold (\<lambda>(k, v) acc. dict_set acc k v) u d"



section \<open>Type annotations and signatures\<close>

text \<open>
  The annotation objects the step machinery inspects. \<open>Class n bs\<close> is a class named
  \<open>n\<close> whose proper superclasses are named \<open>bs\<close>; \<open>Alias origin args\<close> is a generic
  alias of the typing module (\<^verbatim>\<open>List[int]\<close> has origin \<^verbatim>\<open>list\<close>);
  \<open>Union ms\<close> is \<^verbatim>\<open>Union[...]\<close>; \<open>TypingUnion\<close> is the bare special form
  \<^verbatim>\<open>typing.Union\<close> (the origin of every union); \<open>NoneValue\<close> is the object
  \<^verbatim>\<open>None\<close> and \<open>NoneType\<close> is \<^verbatim>\<open>type(None)\<close>.
\<close>

datatype annotation =
    AnyType
  | NoneValue
  | NoneType
  | TypingUnion
  | Class string "string list"
  | Alias annotation "annotation list"
  | Union "annotation list"

text \<open>\<^verbatim>\<open>inspect.isclass(a) and issubclass(a, base)\<close>, \<open>base\<close> given by name.\<close>

fun issubclass :: "annotation \<Rightarrow> string \<Rightarrow> bool" where
  "issubclass (Class n bs) base = (n = base \<or> base \<in> set bs)"
| "issubclass _ base = False"

definition BaseParameters :: string where
  "BaseParameters = ''BaseParameters''"

definition StepContext :: string where
  "StepContext = ''StepContext''"

definition BaseModel :: string where
  "BaseModel = ''BaseModel''"

definition UnmaterializedArtifact :: annotation where
  "UnmaterializedArtifact = Class ''UnmaterializedArtifact'' []"

text \<open>\<^verbatim>\<open>pydantic.typing\<close>: \<^verbatim>\<open>get_origin\<close>, \<^verbatim>\<open>get_args\<close>, \<^verbatim>\<open>is_union\<close>, \<^verbatim>\<open>is_none_type\<close>.\<close>

fun get_origin :: "annotation \<Rightarrow> annotation option" where
  "get_origin (Alias origin args) = Some origin"
| "get_origin (Union ms) = Some TypingUnion"
| "get_origin _ = None"

fun typing_get_args :: "annotation \<Rightarrow> annotation list" where
  "typing_get_args (Alias origin args) = args"
| "typing_get_args (Union ms) = ms"
| "typing_get_args _ = []"

definition is_union :: "annotation \<Rightarrow> bool" where
  "is_union tp = (tp = TypingUnion)"

definition is_none_type :: "annotation \<Rightarrow> bool" where
  "is_none_type tp = (tp = NoneValue \<or> tp = NoneType)"

text \<open>\<^verbatim>\<open>get_origin(obj) or obj\<close>\<close>

definition origin_or_self :: "annotation \<Rightarrow> annotation" where
  "origin_or_self obj = (case get_origin obj of Some origin \<Rightarrow> origin | None \<Rightarrow> obj)"

text \<open>\<^verbatim>\<open>zenml.steps.utils.resolve_type_annotation\<close>\<close>

definition resolve_type_annotation :: "annotation \<Rightarrow> annotation" where
  "resolve_type_annotation obj =
     (let origin = origin_or_self obj in
      if is_union origin then obj else origin)"

text \<open>\<^verbatim>\<open>zenml.steps.utils.get_args\<close>\<close>

definition get_args :: "annotation \<Rightarrow> annotation list" where
  "get_args obj = map origin_or_self (typing_get_args obj)"

text \<open>What \<^verbatim>\<open>inspect.signature\<close> returns for an entrypoint.\<close>

datatype param_kind =
    POSITIONAL_ONLY
  | POSITIONAL_OR_KEYWORD
  | VAR_POSITIONAL
  | KEYWORD_ONLY
  | VAR_KEYWORD

text \<open>\<open>p_annotation = None\<close> is \<^verbatim>\<open>Parameter.empty\<close>; so is \<open>p_default = None\<close>.\<close>

record parameter =
  p_name :: string
  p_kind :: param_kind
  p_annotation :: "annotation option"
  p_default :: "pyval option"

text \<open>
  A return annotation: missing (\<^verbatim>\<open>Signature.empty\<close>), an \<^verbatim>\<open>Output(...)\<close>
  instance with its named outputs, or any other annotation object.
\<close>

datatype return_annotation =
    ReturnEmpty
  | ReturnOutput "(string \<times> annotation) list"
  | Return annotation

record signature =
  sig_parameters :: "parameter list"
  sig_return_annotation :: return_annotation

section \<open>Errors\<close>

text \<open>
  Every \<^verbatim>\<open>raise\<close> of the source is a value of \<open>error\<close>; \<open>exception_class_of\<close> gives
  the Python class raised there.
\<close>

datatype error =
    VariableArgsNotAllowed
  | MissingTypeAnnotation string
  | MultipleParameterArguments string string
  | MultipleContextArguments string string
  | MissingReturnTypeAnnotation
  | ReservedArgumentName string
  | TooManyArguments nat nat
  | UnknownKeywordArgument string
  | WrongParametersObject
  | WrongCallArguments
  | NoInputForKey string
  | UnmaterializedArtifactParameter
  | InputValidationFailed
  | NotJsonSerializable string
  | ParameterWithoutParamClass
  | UnexpectedOutputMaterializers string
  | NotAMaterializerSource string string
  | MissingEntrypointInput string
  | ExplicitMaterializerRequired
  | MaterializerNotFound string annotation string
  | MissingStepParameter string "string list"
  | ParameterValidationFailed
  | ModelValidationFailed string
  | AmbiguousUpstreamSteps
  | ArtifactStoreMismatch
  | ArtifactUriExists
  | ExternalMaterializerNotFound annotation
  | InvalidMaterializerSource string
  | InvalidSettingKey string
  | InvalidHook string
  | UnknownArtifact nat
  | NotSubscriptable string
  | AssertionFailed

datatype exception_class =
    StepInterfaceError
  | RuntimeError
  | KeyError
  | MissingStepParameterError
  | ValidationError
  | CollaboratorError
  | TypeError
  | AssertionError

fun exception_class_of :: "error \<Rightarrow> exception_class" where
  "exception_class_of VariableArgsNotAllowed = StepInterfaceError"
| "exception_class_of (MissingTypeAnnotation k) = StepInterfaceError"
| "exception_class_of (MultipleParameterArguments a b) = StepInterfaceError"
| "exception_class_of (MultipleContextArguments a b) = StepInterfaceError"
| "exception_class_of MissingReturnTypeAnnotation = StepInterfaceError"
| "exception_class_of (ReservedArgumentName a) = RuntimeError"
| "exception_class_of (TooManyArguments n m) = StepInterfaceError"
| "exception_class_of (UnknownKeywordArgument k) = StepInterfaceError"
| "exception_class_of WrongParametersObject = StepInterfaceError"
| "exception_class_of WrongCallArguments = StepInterfaceError"
| "exception_class_of (NoInputForKey k) = KeyError"
| "exception_class_of UnmaterializedArtifactParameter = RuntimeError"
| "exception_class_of InputValidationFailed = RuntimeError"
| "exception_class_of (NotJsonSerializable k) = StepInterfaceError"
| "exception_class_of ParameterWithoutParamClass = StepInterfaceError"
| "exception_class_of (UnexpectedOutputMaterializers n) = StepInterfaceError"
| "exception_class_of (NotAMaterializerSource s n) = StepInterfaceError"
| "exception_class_of (MissingEntrypointInput k) = StepInterfaceError"
| "exception_class_of ExplicitMaterializerRequired = StepInterfaceError"
| "exception_class_of (MaterializerNotFound n t s) = StepInterfaceError"
| "exception_class_of (MissingStepParameter s ks) = MissingStepParameterError"
| "exception_class_of ParameterValidationFailed = StepInterfaceError"
| "exception_class_of (ModelValidationFailed k) = ValidationError"
| "exception_class_of AmbiguousUpstreamSteps = RuntimeError"
| "exception_class_of ArtifactStoreMismatch = RuntimeError"
| "exception_class_of ArtifactUriExists = RuntimeError"
| "exception_class_of (ExternalMaterializerNotFound t) = StepInterfaceError"
| "exception_class_of (InvalidMaterializerSource s) = CollaboratorError"
| "exception_class_of (InvalidSettingKey k) = CollaboratorError"
| "exception_class_of (InvalidHook h) = CollaboratorError"
| "exception_class_of (UnknownArtifact i) = CollaboratorError"
| "exception_class_of (NotSubscriptable k) = TypeError"
| "exception_class_of AssertionFailed = AssertionError"

section \<open>Signature analysis\<close>

text \<open>
  Modelled from the spec: the default name of a single, unnamed output
  (\<^verbatim>\<open>SINGLE_RETURN_OUT_NAME\<close> of \<^verbatim>\<open>zenml.api.step_decorator\<close>, which is not
  among the sources). The spec only says that a single type becomes one output
  "under a default name"; no result below depends on the name chosen.
\<close>

definition SINGLE_RETURN_OUT_NAME :: string where
  "SINGLE_RETURN_OUT_NAME = ''output''"

text \<open>
  \<^verbatim>\<open>zenml.steps.utils.parse_return_type_annotations\<close>. The dict comprehension
  over \<^verbatim>\<open>return_annotation.items()\<close> assigns the outputs in order.
\<close>

definition dict_of_items :: "(string \<times> 'v) list \<Rightarrow> 'v dict" where
  "dict_of_items items = fold (\<lambda>(k, v) acc. dict_set acc k v) items []"

definition parse_return_type_annotations :: "return_annotation \<Rightarrow> annotation dict" where
  "parse_return_type_annotations return_annotation =
     (case return_annotation of
        Return NoneValue \<Rightarrow> []
      | ReturnOutput items \<Rightarrow>
          dict_of_items (map (\<lambda>(output_name, output_type).
                           (output_name, resolve_type_annotation output_type)) items)
      | Return a \<Rightarrow>
          dict_of_items [(SINGLE_RETURN_OUT_NAME, resolve_type_annotation a)]
      | ReturnEmpty \<Rightarrow>
          dict_of_items [(SINGLE_RETURN_OUT_NAME, resolve_type_annotation (Class ''_empty'' []))])"

record entrypoint_function_definition =
  efd_inputs :: "parameter dict"
  efd_outputs :: "annotation dict"
  efd_context :: "parameter option"
  efd_params :: "parameter option"

text \<open>\<^verbatim>\<open>validate_reserved_arguments\<close>: the first reserved name found raises.\<close>

fun validate_reserved_arguments :: "signature \<Rightarrow> string list \<Rightarrow> error + unit" where
  "validate_reserved_arguments sg [] = Inr ()"
| "validate_reserved_arguments sg (arg # reserved_arguments) =
     (if arg \<in> set (map p_name (sig_parameters sg)) then Inl (ReservedArgumentName arg)
      else validate_reserved_arguments sg reserved_arguments)"

text \<open>
  The loop of \<^verbatim>\<open>validate_entrypoint_function\<close> over \<^verbatim>\<open>signature.parameters\<close>,
  with the three variables it updates: \<^verbatim>\<open>inputs\<close>, \<^verbatim>\<open>context\<close>, \<^verbatim>\<open>params\<close>.
\<close>

fun validate_parameters ::
  "parameter list \<Rightarrow> parameter dict \<Rightarrow> parameter option \<Rightarrow> parameter option \<Rightarrow>
   error + (parameter dict \<times> parameter option \<times> parameter option)" where
  "validate_parameters [] inputs context_p params = Inr (inputs, context_p, params)"
| "validate_parameters (p # ps) inputs context_p params =
     (if p_kind p = VAR_POSITIONAL \<or> p_kind p = VAR_KEYWORD then Inl VariableArgsNotAllowed
      else case p_annotation p of
        None \<Rightarrow> Inl (MissingTypeAnnotation (p_name p))
      | Some a \<Rightarrow>
          if issubclass a BaseParameters then
            (case params of
               Some q \<Rightarrow> Inl (MultipleParameterArguments (p_name q) (p_name p))
             | None \<Rightarrow> validate_parameters ps inputs context_p (Some p))
          else if issubclass a StepContext then
            (case context_p of
               Some q \<Rightarrow> Inl (MultipleContextArguments (p_name q) (p_name p))
             | None \<Rightarrow> validate_parameters ps inputs (Some p) params)
          else validate_parameters ps (dict_set inputs (p_name p) p) context_p params)"

definition validate_entrypoint_function ::
  "signature \<Rightarrow> string list \<Rightarrow> error + entrypoint_function_definition" where
  "validate_entrypoint_function sg reserved_arguments =
     (case validate_reserved_arguments sg reserved_arguments of
        Inl e \<Rightarrow> Inl e
      | Inr _ \<Rightarrow>
     (case validate_parameters (sig_parameters sg) [] None None of
        Inl e \<Rightarrow> Inl e
      | Inr (inputs, context_p, params) \<Rightarrow>
          if sig_return_annotation sg = ReturnEmpty then Inl MissingReturnTypeAnnotation
          else Inr \<lparr> efd_inputs = inputs,
                     efd_outputs = parse_return_type_annotations (sig_return_annotation sg),
                     efd_context = context_p,
                     efd_params = params \<rparr>))"


text \<open>
  The conditions of the interface contract, stated on the signature alone. A parameter
  is a parameter object when its annotation is a \<^verbatim>\<open>BaseParameters\<close> subclass, and
  a context parameter when its annotation is a \<^verbatim>\<open>StepContext\<close> subclass (and not
  a parameter object); every other annotated parameter is an input.
\<close>

definition is_variadic :: "parameter \<Rightarrow> bool" where
  "is_variadic p = (p_kind p = VAR_POSITIONAL \<or> p_kind p = VAR_KEYWORD)"

definition is_parameter_object :: "parameter \<Rightarrow> bool" where
  "is_parameter_object p =
     (case p_annotation p of None \<Rightarrow> False | Some a \<Rightarrow> issubclass a BaseParameters)"

definition is_context_parameter :: "parameter \<Rightarrow> bool" where
  "is_context_parameter p =
     (case p_annotation p of
        None \<Rightarrow> False
      | Some a \<Rightarrow> \<not> issubclass a BaseParameters \<and> issubclass a StepContext)"

definition is_input_parameter :: "parameter \<Rightarrow> bool" where
  "is_input_parameter p = (\<not> is_parameter_object p \<and> \<not> is_context_parameter p)"


definition full_interface :: "signature \<Rightarrow> entrypoint_function_definition" where
  "full_interface sg =
     \<lparr> efd_inputs = dict_of_items (map (\<lambda>p. (p_name p, p))
                                     (filter is_input_parameter (sig_parameters sg))),
       efd_outputs = parse_return_type_annotations (sig_return_annotation sg),
       efd_context = List.find is_context_parameter (sig_parameters sg),
       efd_params = List.find is_parameter_object (sig_parameters sg) \<rparr>"

text \<open>
  The loop accepts a parameter list exactly when it holds no variadic and no
  unannotated parameter and, counting the parameter object and context parameter
  already seen, at most one of each.
\<close>

definition well_formed_parameters ::
  "parameter list \<Rightarrow> parameter option \<Rightarrow> parameter option \<Rightarrow> bool" where
  "well_formed_parameters ps context_p params =
     (\<not> list_ex is_variadic ps \<and> \<not> list_ex (\<lambda>p. p_annotation p = None) ps
      \<and> length (filter is_parameter_object ps) + (if params = None then 0 else 1) \<le> 1
      \<and> length (filter is_context_parameter ps) + (if context_p = None then 0 else 1) \<le> 1)"

section \<open>Configuration model\<close>

text \<open>A \<^verbatim>\<open>Source\<close> is written as its import path.\<close>

type_synonym source = string

text \<open>
  Modelled from the spec: the configuration classes of
  \<^verbatim>\<open>zenml.config.step_configurations\<close>, which are not among the sources; their
  fields are those the step machinery reads and writes, and those the spec lists (3).
  \<^verbatim>\<open>PartialArtifactConfiguration\<close> is the one entry an output's configuration holds,
  \<^verbatim>\<open>materializer_source\<close>, which may be unset.
\<close>

record partial_artifact_configuration =
  materializer_source :: "source list option"

text \<open>
  Modelled from the spec: \<^verbatim>\<open>PartialStepConfiguration\<close> and, once finalized,
  \<^verbatim>\<open>StepConfiguration\<close> (3). Identifiers of artifacts (UUIDs) are natural numbers.
\<close>

record step_configuration =
  name :: string
  enable_cache :: "bool option"
  enable_artifact_metadata :: "bool option"
  enable_artifact_visualization :: "bool option"
  experiment_tracker :: "string option"
  step_operator :: "string option"
  parameters :: "pyval dict"
  settings :: "pyval dict"
  outputs :: "partial_artifact_configuration dict"
  extra :: "pyval dict"
  failure_hook_source :: "source option"
  success_hook_source :: "source option"
  caching_parameters :: "string dict"
  external_input_artifacts :: "nat dict"

text \<open>
  Modelled from the spec: \<^verbatim>\<open>StepConfigurationUpdate\<close>, "a patch object holding
  optional values for every configurable field" (3), as \<^verbatim>\<open>configure\<close> builds it:
  the values that are \<^verbatim>\<open>None\<close> are removed (\<^verbatim>\<open>remove_none_values\<close>) and stay
  unset, so a field of the update is \<open>None\<close> when unset and \<open>Some v\<close> when it holds a
  value (also an empty mapping).
\<close>

record step_configuration_update =
  upd_enable_cache :: "bool option"
  upd_enable_artifact_metadata :: "bool option"
  upd_enable_artifact_visualization :: "bool option"
  upd_experiment_tracker :: "string option"
  upd_step_operator :: "string option"
  upd_parameters :: "pyval dict option"
  upd_settings :: "pyval dict option"
  upd_outputs :: "partial_artifact_configuration dict option"
  upd_extra :: "pyval dict option"
  upd_failure_hook_source :: "source option"
  upd_success_hook_source :: "source option"

definition empty_update :: step_configuration_update where
  "empty_update =
     \<lparr> upd_enable_cache = None, upd_enable_artifact_metadata = None,
       upd_enable_artifact_visualization = None, upd_experiment_tracker = None,
       upd_step_operator = None, upd_parameters = None, upd_settings = None,
       upd_outputs = None, upd_extra = None, upd_failure_hook_source = None,
       upd_success_hook_source = None \<rparr>"

subsection \<open>Merging an update into a configuration\<close>

text \<open>
  Modelled from the spec: a field of the update that holds a value replaces the field
  of the base (4.3: "every non-empty field in update fully replaces the corresponding
  field in base"; "scalar and flag fields are replaced if present").
\<close>

definition replace_field :: "'a option \<Rightarrow> 'a option \<Rightarrow> 'a option" where
  "replace_field old new = (case new of None \<Rightarrow> old | Some v \<Rightarrow> Some v)"

text \<open>
  Modelled from the spec: the key-by-key merge of two mappings, "update's value winning
  on key collision" (4.3); \<open>f\<close> combines the two values of a shared key.
\<close>

definition merge_dicts :: "('v \<Rightarrow> 'v \<Rightarrow> 'v) \<Rightarrow> 'v dict \<Rightarrow> 'v dict \<Rightarrow> 'v dict" where
  "merge_dicts f d u =
     fold (\<lambda>(k, v) acc.
             dict_set acc k (case dict_get acc k of None \<Rightarrow> v | Some old \<Rightarrow> f old v)) u d"

text \<open>
  Modelled from the spec: "nested mapping values recurse one level" (4.3): two mappings
  under a shared key are merged key by key, any other value is replaced.
\<close>

fun merge_value :: "pyval \<Rightarrow> pyval \<Rightarrow> pyval" where
  "merge_value (VDict a) (VDict b) = VDict (dict_update a b)"
| "merge_value old new = new"

text \<open>
  Modelled from the spec: "per-output materializer entries merge per output name, then
  per materializer-kind key within that output" (4.3).
\<close>

definition merge_artifact_configuration ::
  "partial_artifact_configuration \<Rightarrow> partial_artifact_configuration \<Rightarrow>
   partial_artifact_configuration" where
  "merge_artifact_configuration old new =
     \<lparr> materializer_source =
         replace_field (materializer_source old) (materializer_source new) \<rparr>"

text \<open>
  Modelled from the spec: a mapping-typed field is replaced as a whole when \<open>deep\<close> is
  false and merged key by key when it is true (4.3).
\<close>

definition merge_mapping ::
  "bool \<Rightarrow> ('v \<Rightarrow> 'v \<Rightarrow> 'v) \<Rightarrow> 'v dict \<Rightarrow> 'v dict option \<Rightarrow> 'v dict" where
  "merge_mapping recursive f old new =
     (case new of
        None \<Rightarrow> old
      | Some u \<Rightarrow> if recursive then merge_dicts f old u else u)"

text \<open>
  Modelled from the spec: the merge of a configuration update into a configuration,
  \<^verbatim>\<open>pydantic_utils.update_model(original, update, recursive)\<close>, whose code is not
  among the sources. The spec (4.3): with \<open>deep\<close> false, every field the update holds
  fully replaces the field of the base, a mapping as a whole; with \<open>deep\<close> true, scalar
  and flag fields are replaced when present, mapping-typed fields (parameters,
  settings, extra, outputs) are merged key by key, the update's value winning on a key
  they share, and nested mapping values recurse one level. The base is not changed; a
  new configuration is returned.
\<close>

definition update_model ::
  "step_configuration \<Rightarrow> step_configuration_update \<Rightarrow> bool \<Rightarrow> step_configuration" where
  "update_model original update recursive =
     original
       \<lparr> enable_cache := replace_field (enable_cache original) (upd_enable_cache update),
         enable_artifact_metadata :=
           replace_field (enable_artifact_metadata original)
             (upd_enable_artifact_metadata update),
         enable_artifact_visualization :=
           replace_field (enable_artifact_visualization original)
             (upd_enable_artifact_visualization update),
         experiment_tracker :=
           replace_field (experiment_tracker original) (upd_experiment_tracker update),
         step_operator := replace_field (step_operator original) (upd_step_operator update),
         parameters :=
           merge_mapping recursive merge_value (parameters original) (upd_parameters update),
         settings :=
           merge_mapping recursive merge_value (settings original) (upd_settings update),
         outputs :=
           merge_mapping recursive merge_artifact_configuration (outputs original)
             (upd_outputs update),
         extra := merge_mapping recursive merge_value (extra original) (upd_extra update),
         failure_hook_source :=
           replace_field (failure_hook_source original) (upd_failure_hook_source update),
         success_hook_source :=
           replace_field (success_hook_source original) (upd_success_hook_source update) \<rparr>"

section \<open>Collaborators\<close>

text \<open>
  What the step machinery calls outside the sources: the settings validator, pydantic,
  the source utilities, the hook validator, the materializer registry and the two hash
  functions. They are parameters of the model. A class is written by its name.
  \<^item> \<open>validate_setting_keys\<close>: \<^verbatim>\<open>settings_utils.validate_setting_keys\<close>, the error
    it raises if any;
  \<^item> \<open>input_value_valid\<close>: whether pydantic accepts a value for a parameter's annotation
    (\<^verbatim>\<open>_validate_input_value\<close>);
  \<^item> \<open>model_dict\<close>: \<^verbatim>\<open>annotation(**value).dict()\<close> for a pydantic model class,
    \<open>None\<close> when the instantiation raises;
  \<^item> \<open>model_fields\<close>: the fields of a parameter class, each with \<^verbatim>\<open>required\<close> and
    \<^verbatim>\<open>default\<close>; \<open>model_extra_allow\<close>: \<^verbatim>\<open>Config.extra == Extra.allow\<close>;
    \<open>model_validates\<close>: whether \<^verbatim>\<open>annotation(**values)\<close> passes validation;
  \<^item> \<open>validate_source_class\<close>: whether a source resolves to a materializer class;
  \<^item> \<open>resolve_and_validate_hook\<close>; \<open>source_resolve\<close> (\<^verbatim>\<open>source_utils.resolve\<close>);
    \<open>source_load\<close> (\<^verbatim>\<open>source_utils.load\<close>); \<open>load_and_validate_class\<close>;
  \<^item> \<open>registry\<close>: the materializer class registered for a type, if any
    (\<^verbatim>\<open>is_registered\<close> and \<^verbatim>\<open>__getitem__\<close>);
  \<^item> \<open>getsource\<close>: \<^verbatim>\<open>inspect.getsource\<close> of a class; \<open>content_hash\<close>: the hash
    \<^verbatim>\<open>get_hashed_source_code\<close> takes of the source text; \<open>md5_hexdigest\<close>;
  \<^item> \<open>associated_artifact_type\<close>: a materializer's \<^verbatim>\<open>ASSOCIATED_ARTIFACT_TYPE\<close>;
  \<^item> \<open>STEP_SOURCE_PARAMETER_NAME\<close>: the constant of \<^verbatim>\<open>zenml.constants\<close>, the key
    of the step source in the caching parameters.
\<close>

record env =
  validate_setting_keys :: "string list \<Rightarrow> error option"
  input_value_valid :: "parameter \<Rightarrow> pyval \<Rightarrow> bool"
  model_dict :: "annotation \<Rightarrow> pyval \<Rightarrow> pyval option"
  model_fields :: "annotation \<Rightarrow> (string \<times> bool \<times> pyval) list"
  model_extra_allow :: "annotation \<Rightarrow> bool"
  model_validates :: "annotation \<Rightarrow> pyval dict \<Rightarrow> bool"
  validate_source_class :: "source \<Rightarrow> bool"
  resolve_and_validate_hook :: "string \<Rightarrow> error + source"
  source_resolve :: "string \<Rightarrow> source"
  source_load :: "source \<Rightarrow> string"
  load_and_validate_class :: "source \<Rightarrow> error + string"
  registry :: "annotation \<Rightarrow> string option"
  getsource :: "string \<Rightarrow> string"
  content_hash :: "string \<Rightarrow> string"
  md5_hexdigest :: "string \<Rightarrow> string"
  associated_artifact_type :: "string \<Rightarrow> string"
  STEP_SOURCE_PARAMETER_NAME :: string

text \<open>
  Modelled from the spec: \<^verbatim>\<open>source_code_utils.get_hashed_source_code\<close>, which is
  not among the sources: "a content hash of the step template's implementation source
  text" (4.5).
\<close>

definition get_hashed_source_code :: "env \<Rightarrow> string \<Rightarrow> string" where
  "get_hashed_source_code E obj = content_hash E (getsource E obj)"

section \<open>Artifacts\<close>

record step_artifact =
  sa_invocation_id :: string
  sa_output_name :: string
  sa_annotation :: annotation

datatype materializer_class_or_source =
    MStr string
  | MSource source
  | MClass string

text \<open>
  \<^verbatim>\<open>ExternalArtifact\<close>: \<open>ea_value = VNone\<close> is \<^verbatim>\<open>value=None\<close>. The constructor
  refuses a value together with an identifier, and neither.
\<close>

record external_artifact =
  ea_value :: pyval
  ea_id :: "nat option"
  ea_materializer :: "materializer_class_or_source option"
  ea_store_artifact_metadata :: bool
  ea_skip_type_checking :: bool

datatype value_error = OnlyValueOrIdAllowed | EitherValueOrIdRequired

definition ExternalArtifact ::
  "pyval \<Rightarrow> nat option \<Rightarrow> materializer_class_or_source option \<Rightarrow> bool \<Rightarrow> bool \<Rightarrow>
   value_error + external_artifact" where
  "ExternalArtifact v i materializer store_artifact_metadata skip_type_checking =
     (if v \<noteq> VNone \<and> i \<noteq> None then Inl OnlyValueOrIdAllowed
      else if v = VNone \<and> i = None then Inl EitherValueOrIdRequired
      else Inr \<lparr> ea_value = v, ea_id = i, ea_materializer = materializer,
                 ea_store_artifact_metadata = store_artifact_metadata,
                 ea_skip_type_checking = skip_type_checking \<rparr>)"

text \<open>What a step is called with, per bound argument.\<close>

datatype call_value =
    ArtifactValue step_artifact
  | ExternalValue external_artifact
  | ParameterValue pyval

section \<open>Steps\<close>

text \<open>
  A step object. \<open>class_name\<close> is \<^verbatim>\<open>self.__class__\<close> (the source object of the
  step), \<open>entrypoint\<close> the signature of its entrypoint. \<open>upstream_steps\<close> holds
  references to the step objects given to \<^verbatim>\<open>after\<close>: steps are compared by
  identity (\<^verbatim>\<open>is\<close>), so a step object is referred to by its address.
\<close>

record base_step =
  class_name :: string
  entrypoint :: signature
  upstream_steps :: "nat list"
  entrypoint_definition :: entrypoint_function_definition
  configuration :: step_configuration

text \<open>\<^verbatim>\<open>BaseStep.after\<close>: \<^verbatim>\<open>self._upstream_steps.add(step)\<close>\<close>

definition after :: "base_step \<Rightarrow> nat \<Rightarrow> base_step" where
  "after self step_ref = self \<lparr> upstream_steps := List.insert step_ref (upstream_steps self) \<rparr>"

text \<open>
  \<^verbatim>\<open>EntrypointFunctionDefinition.validate_input\<close>. Every \<open>pyval\<close> is JSON
  serializable, so the last check of the source never raises here.
\<close>

definition validate_input ::
  "env \<Rightarrow> entrypoint_function_definition \<Rightarrow> string \<Rightarrow> call_value \<Rightarrow> error + unit" where
  "validate_input E efd key input =
     (case dict_get (efd_inputs efd) key of
        None \<Rightarrow> Inl (NoInputForKey key)
      | Some parameter \<Rightarrow>
          (case input of
             ParameterValue v \<Rightarrow>
               if p_annotation parameter = Some UnmaterializedArtifact
               then Inl UnmaterializedArtifactParameter
               else if \<not> input_value_valid E parameter v then Inl InputValidationFailed
               else Inr ()
           | _ \<Rightarrow> Inr ()))"

text \<open>\<^verbatim>\<open>BaseStep._validate_function_parameters\<close>\<close>

fun validate_function_parameters ::
  "env \<Rightarrow> entrypoint_function_definition \<Rightarrow> pyval dict \<Rightarrow> error + unit" where
  "validate_function_parameters E efd [] = Inr ()"
| "validate_function_parameters E efd ((key, v) # rest) =
     (if dict_contains key (efd_inputs efd) then
        (case validate_input E efd key (ParameterValue v) of
           Inl e \<Rightarrow> Inl e
         | Inr _ \<Rightarrow> validate_function_parameters E efd rest)
      else if efd_params efd = None then Inl ParameterWithoutParamClass
      else validate_function_parameters E efd rest)"

text \<open>\<^verbatim>\<open>BaseStep._validate_outputs\<close>\<close>

fun validate_sources :: "env \<Rightarrow> string \<Rightarrow> source list \<Rightarrow> error + unit" where
  "validate_sources E output_name [] = Inr ()"
| "validate_sources E output_name (s # ss) =
     (if \<not> validate_source_class E s then Inl (NotAMaterializerSource s output_name)
      else validate_sources E output_name ss)"

fun validate_outputs ::
  "env \<Rightarrow> entrypoint_function_definition \<Rightarrow> partial_artifact_configuration dict \<Rightarrow>
   error + unit" where
  "validate_outputs E efd [] = Inr ()"
| "validate_outputs E efd ((output_name, output) # rest) =
     (if \<not> dict_contains output_name (efd_outputs efd)
      then Inl (UnexpectedOutputMaterializers output_name)
      else case validate_sources E output_name
                  (case materializer_source output of None \<Rightarrow> [] | Some ss \<Rightarrow> ss) of
             Inl e \<Rightarrow> Inl e
           | Inr _ \<Rightarrow> validate_outputs E efd rest)"

text \<open>
  \<^verbatim>\<open>BaseStep._validate_configuration\<close>; an unset mapping of the update reads as
  the empty mapping.
\<close>

definition or_empty :: "'v dict option \<Rightarrow> 'v dict" where
  "or_empty d = (case d of None \<Rightarrow> [] | Some x \<Rightarrow> x)"

definition validate_configuration ::
  "env \<Rightarrow> base_step \<Rightarrow> step_configuration_update \<Rightarrow> error + unit" where
  "validate_configuration E self config =
     (case validate_setting_keys E (dict_keys (or_empty (upd_settings config))) of
        Some e \<Rightarrow> Inl e
      | None \<Rightarrow>
     (case validate_function_parameters E (entrypoint_definition self)
             (or_empty (upd_parameters config)) of
        Inl e \<Rightarrow> Inl e
      | Inr _ \<Rightarrow>
          validate_outputs E (entrypoint_definition self) (or_empty (upd_outputs config))))"

text \<open>\<^verbatim>\<open>BaseStep._apply_configuration\<close>\<close>

definition apply_configuration ::
  "env \<Rightarrow> base_step \<Rightarrow> step_configuration_update \<Rightarrow> bool \<Rightarrow> error + base_step" where
  "apply_configuration E self config merge =
     (case validate_configuration E self config of
        Inl e \<Rightarrow> Inl e
      | Inr _ \<Rightarrow>
          Inr (self \<lparr> configuration := update_model (configuration self) config merge \<rparr>))"

subsection \<open>Configuring a step\<close>

text \<open>
  The \<^verbatim>\<open>output_materializers\<close> argument: one materializer (a class, a source or an
  import path), a sequence of them, or a mapping from output names to either.
\<close>

datatype materializer_value =
    MOne materializer_class_or_source
  | MSeq "materializer_class_or_source list"

datatype output_materializers_specification =
    OMValue materializer_value
  | OMMapping "materializer_value dict"

text \<open>The arguments of \<^verbatim>\<open>configure\<close>, \<open>None\<close> where the caller passes nothing.\<close>

record configure_args =
  arg_name :: "string option"
  arg_enable_cache :: "bool option"
  arg_enable_artifact_metadata :: "bool option"
  arg_enable_artifact_visualization :: "bool option"
  arg_experiment_tracker :: "string option"
  arg_step_operator :: "string option"
  arg_parameters :: "pyval dict option"
  arg_output_materializers :: "output_materializers_specification option"
  arg_settings :: "pyval dict option"
  arg_extra :: "pyval dict option"
  arg_on_failure :: "string option"
  arg_on_success :: "string option"
  arg_merge :: bool

text \<open>The defaults of \<^verbatim>\<open>configure\<close>: nothing passed, \<^verbatim>\<open>merge=True\<close>.\<close>

definition default_args :: configure_args where
  "default_args =
     \<lparr> arg_name = None, arg_enable_cache = None, arg_enable_artifact_metadata = None,
       arg_enable_artifact_visualization = None, arg_experiment_tracker = None,
       arg_step_operator = None, arg_parameters = None, arg_output_materializers = None,
       arg_settings = None, arg_extra = None, arg_on_failure = None, arg_on_success = None,
       arg_merge = True \<rparr>"

text \<open>\<^verbatim>\<open>_resolve_if_necessary\<close>; \<^verbatim>\<open>Source.from_import_path\<close> keeps the path.\<close>

fun resolve_if_necessary :: "env \<Rightarrow> materializer_class_or_source \<Rightarrow> source" where
  "resolve_if_necessary E (MStr s) = s"
| "resolve_if_necessary E (MSource s) = s"
| "resolve_if_necessary E (MClass c) = source_resolve E c"

text \<open>
  \<^verbatim>\<open>_convert_to_tuple\<close>. A \<^verbatim>\<open>str\<close> is a \<^verbatim>\<open>Sequence\<close>, so an import path
  given on its own is iterated character by character, as the source does.
\<close>

fun convert_to_tuple :: "env \<Rightarrow> materializer_value \<Rightarrow> source list" where
  "convert_to_tuple E (MOne (MStr s)) = map (\<lambda>c. resolve_if_necessary E (MStr [c])) s"
| "convert_to_tuple E (MOne v) = [resolve_if_necessary E v]"
| "convert_to_tuple E (MSeq vs) = map (resolve_if_necessary E) vs"

text \<open>Truthiness of the argument (\<^verbatim>\<open>if output_materializers:\<close>).\<close>

fun truthy_materializers :: "output_materializers_specification \<Rightarrow> bool" where
  "truthy_materializers (OMValue (MOne (MStr s))) = (s \<noteq> [])"
| "truthy_materializers (OMValue (MOne v)) = True"
| "truthy_materializers (OMValue (MSeq vs)) = (vs \<noteq> [])"
| "truthy_materializers (OMMapping m) = (m \<noteq> [])"

text \<open>
  The \<^verbatim>\<open>outputs\<close> dictionary \<^verbatim>\<open>configure\<close> builds from the argument. For a
  materializer given on its own the source iterates the set of output names, in an
  order Python does not fix; here the outputs are taken in declaration order, which
  gives the same mapping from names to entries.
\<close>

definition configured_outputs ::
  "env \<Rightarrow> entrypoint_function_definition \<Rightarrow> output_materializers_specification option \<Rightarrow>
   partial_artifact_configuration dict" where
  "configured_outputs E efd output_materializers =
     (case output_materializers of
        None \<Rightarrow> []
      | Some om \<Rightarrow>
          if \<not> truthy_materializers om then []
          else
            let mapping =
              (case om of
                 OMMapping m \<Rightarrow> m
               | OMValue v \<Rightarrow>
                   dict_of_items
                     (map (\<lambda>output_name. (output_name, MSeq (map MSource (convert_to_tuple E v))))
                        (dict_keys (efd_outputs efd))))
            in fold (\<lambda>(output_name, materializer) acc.
                       dict_set acc output_name
                         \<lparr> materializer_source = Some (convert_to_tuple E materializer) \<rparr>)
                 mapping [])"

text \<open>A hook is resolved when one is given (\<^verbatim>\<open>if on_failure:\<close>).\<close>

definition resolve_hook :: "env \<Rightarrow> string option \<Rightarrow> error + source option" where
  "resolve_hook E hook =
     (case hook of
        None \<Rightarrow> Inr None
      | Some h \<Rightarrow>
          if h = [] then Inr None
          else (case resolve_and_validate_hook E h of
                  Inl e \<Rightarrow> Inl e
                | Inr s \<Rightarrow> Inr (Some s)))"

text \<open>
  \<^verbatim>\<open>BaseStep.configure\<close>. A parameter object passed as \<^verbatim>\<open>parameters\<close> is given
  by its \<^verbatim>\<open>dict()\<close>.
\<close>

definition configure :: "env \<Rightarrow> base_step \<Rightarrow> configure_args \<Rightarrow> error + base_step" where
  "configure E self args =
     (let outs = configured_outputs E (entrypoint_definition self)
                   (arg_output_materializers args) in
      case resolve_hook E (arg_on_failure args) of
        Inl e \<Rightarrow> Inl e
      | Inr failure_hook \<Rightarrow>
     (case resolve_hook E (arg_on_success args) of
        Inl e \<Rightarrow> Inl e
      | Inr success_hook \<Rightarrow>
          apply_configuration E self
            \<lparr> upd_enable_cache = arg_enable_cache args,
              upd_enable_artifact_metadata = arg_enable_artifact_metadata args,
              upd_enable_artifact_visualization = arg_enable_artifact_visualization args,
              upd_experiment_tracker = arg_experiment_tracker args,
              upd_step_operator = arg_step_operator args,
              upd_parameters = arg_parameters args,
              upd_settings = arg_settings args,
              upd_outputs = (if outs = [] then None else Some outs),
              upd_extra = arg_extra args,
              upd_failure_hook_source = failure_hook,
              upd_success_hook_source = success_hook \<rparr>
            (arg_merge args)))"

subsection \<open>Creating a step\<close>

text \<open>
  An object passed to the constructor as the step's parameter object: its class and
  its \<^verbatim>\<open>dict()\<close>.
\<close>

record pyobject =
  obj_class :: annotation
  obj_dict :: "pyval dict"

text \<open>\<^verbatim>\<open>isinstance(obj, cls)\<close> for a class \<open>cls\<close>.\<close>

fun isinstance :: "pyobject \<Rightarrow> annotation \<Rightarrow> bool" where
  "isinstance obj (Class n bs) = issubclass (obj_class obj) n"
| "isinstance obj _ = False"

text \<open>
  \<^verbatim>\<open>BaseStep._verify_and_apply_init_params\<close>, with the positional and keyword
  arguments left over for it.
\<close>

definition verify_and_apply_init_params ::
  "env \<Rightarrow> base_step \<Rightarrow> pyobject list \<Rightarrow> pyobject dict \<Rightarrow> error + base_step" where
  "verify_and_apply_init_params E self args kwargs =
     (let maximum_arg_count = (if efd_params (entrypoint_definition self) = None then 0 else 1 :: nat);
          arg_count = length args + length kwargs
      in
      if arg_count > maximum_arg_count then Inl (TooManyArguments arg_count maximum_arg_count)
      else case efd_params (entrypoint_definition self) of
        None \<Rightarrow> Inr self
      | Some params \<Rightarrow>
          (case (case args of
                   config # _ \<Rightarrow> Inr (Some config)
                 | [] \<Rightarrow>
                    (if kwargs \<noteq> [] then
                       (let (key, config) = last kwargs in
                        if key \<noteq> p_name params then Inl (UnknownKeywordArgument key)
                        else Inr (Some config))
                     else Inr None)) of
             Inl e \<Rightarrow> Inl e
           | Inr None \<Rightarrow> Inr self
           | Inr (Some config) \<Rightarrow>
               (case p_annotation params of
                  None \<Rightarrow> Inl WrongParametersObject
                | Some annotation \<Rightarrow>
                    if \<not> isinstance config annotation then Inl WrongParametersObject
                    else configure E self
                           (default_args \<lparr> arg_parameters := Some (obj_dict config) \<rparr>))))"

text \<open>The keyword arguments of \<^verbatim>\<open>BaseStep.__init__\<close>.\<close>

record init_args =
  init_name :: "string option"
  init_enable_cache :: "bool option"
  init_enable_artifact_metadata :: "bool option"
  init_enable_artifact_visualization :: "bool option"
  init_experiment_tracker :: "string option"
  init_step_operator :: "string option"
  init_parameters :: "pyval dict option"
  init_output_materializers :: "output_materializers_specification option"
  init_settings :: "pyval dict option"
  init_extra :: "pyval dict option"
  init_on_failure :: "string option"
  init_on_success :: "string option"

text \<open>\<^verbatim>\<open>PartialStepConfiguration(name=..., enable_cache=..., ...)\<close>\<close>

definition PartialStepConfiguration ::
  "string \<Rightarrow> bool option \<Rightarrow> bool option \<Rightarrow> bool option \<Rightarrow> step_configuration" where
  "PartialStepConfiguration n cache artifact_metadata artifact_visualization =
     \<lparr> name = n, enable_cache = cache, enable_artifact_metadata = artifact_metadata,
       enable_artifact_visualization = artifact_visualization, experiment_tracker = None,
       step_operator = None, parameters = [], settings = [], outputs = [], extra = [],
       failure_hook_source = None, success_hook_source = None, caching_parameters = [],
       external_input_artifacts = [] \<rparr>"

text \<open>
  \<^verbatim>\<open>BaseStep.__init__\<close> for a step class (its name and the signature of its
  entrypoint), returning the new step object.
\<close>

definition init_step ::
  "env \<Rightarrow> string \<Rightarrow> signature \<Rightarrow> pyobject list \<Rightarrow> init_args \<Rightarrow> pyobject dict \<Rightarrow>
   error + base_step" where
  "init_step E cls sg args ia kwargs =
     (case validate_entrypoint_function sg [] of
        Inl e \<Rightarrow> Inl e
      | Inr efd \<Rightarrow>
          let n = (case init_name ia of None \<Rightarrow> cls | Some s \<Rightarrow> if s = [] then cls else s);
              requires_context = (efd_context efd \<noteq> None);
              cache = (if init_enable_cache ia = None
                       then (if requires_context then Some False else None)
                       else init_enable_cache ia);
              self = \<lparr> class_name = cls, entrypoint = sg, upstream_steps = [],
                       entrypoint_definition = efd,
                       configuration =
                         PartialStepConfiguration n cache (init_enable_artifact_metadata ia)
                           (init_enable_artifact_visualization ia) \<rparr>
          in case configure E self
                    (default_args
                       \<lparr> arg_experiment_tracker := init_experiment_tracker ia,
                         arg_step_operator := init_step_operator ia,
                         arg_output_materializers := init_output_materializers ia,
                         arg_parameters := init_parameters ia,
                         arg_settings := init_settings ia,
                         arg_extra := init_extra ia,
                         arg_on_failure := init_on_failure ia,
                         arg_on_success := init_on_success ia \<rparr>) of
               Inl e \<Rightarrow> Inl e
             | Inr self' \<Rightarrow> verify_and_apply_init_params E self' args kwargs)"

subsection \<open>Caching parameters\<close>

text \<open>
  \<^verbatim>\<open>BaseStep.caching_parameters\<close>. The loop over the configured outputs adds one
  entry per output whose \<^verbatim>\<open>materializer_source\<close> is set and not empty: the MD5
  digest fed, in order, with the hashed source code of each materializer class.
\<close>

definition materializer_source_hash :: "env \<Rightarrow> source list \<Rightarrow> string" where
  "materializer_source_hash E sources =
     md5_hexdigest E
       (concat (map (\<lambda>s. get_hashed_source_code E (source_load E s)) sources))"

fun caching_outputs ::
  "env \<Rightarrow> partial_artifact_configuration dict \<Rightarrow> string dict \<Rightarrow> string dict" where
  "caching_outputs E [] ps = ps"
| "caching_outputs E ((output_name, output) # rest) ps =
     (case materializer_source output of
        None \<Rightarrow> caching_outputs E rest ps
      | Some [] \<Rightarrow> caching_outputs E rest ps
      | Some (s # ss) \<Rightarrow>
          caching_outputs E rest
            (dict_set ps (output_name @ ''_materializer_source'')
               (materializer_source_hash E (s # ss))))"

definition caching_parameters_of :: "env \<Rightarrow> base_step \<Rightarrow> string dict" where
  "caching_parameters_of E self =
     caching_outputs E (outputs (configuration self))
       (dict_set [] (STEP_SOURCE_PARAMETER_NAME E)
          (get_hashed_source_code E (class_name self)))"

subsection \<open>Finalizing the configuration\<close>

text \<open>
  \<^verbatim>\<open>get_step_entrypoint_signature(step)\<close>: the parameters of the entrypoint
  without those annotated with a \<^verbatim>\<open>StepContext\<close> class.
\<close>

definition is_step_context_param :: "annotation option \<Rightarrow> bool" where
  "is_step_context_param a =
     (case a of None \<Rightarrow> False | Some c \<Rightarrow> issubclass c StepContext)"

definition get_step_entrypoint_signature :: "base_step \<Rightarrow> parameter list" where
  "get_step_entrypoint_signature step =
     filter (\<lambda>p. \<not> is_step_context_param (p_annotation p))
       (sig_parameters (entrypoint step))"

text \<open>\<^verbatim>\<open>BaseStep._validate_inputs\<close>: the first key without a value raises.\<close>

fun validate_input_keys ::
  "string list \<Rightarrow> step_artifact dict \<Rightarrow> pyval dict \<Rightarrow> nat dict \<Rightarrow> error + unit" where
  "validate_input_keys [] input_artifacts ps external_artifacts = Inr ()"
| "validate_input_keys (key # keys) input_artifacts ps external_artifacts =
     (if dict_contains key input_artifacts \<or> dict_contains key ps
         \<or> dict_contains key external_artifacts
      then validate_input_keys keys input_artifacts ps external_artifacts
      else Inl (MissingEntrypointInput key))"

definition validate_inputs ::
  "base_step \<Rightarrow> step_artifact dict \<Rightarrow> nat dict \<Rightarrow> error + unit" where
  "validate_inputs self input_artifacts external_artifacts =
     validate_input_keys (map p_name (get_step_entrypoint_signature self))
       input_artifacts (parameters (configuration self)) external_artifacts"

text \<open>Truthiness, \<^verbatim>\<open>in\<close> and subscription of a Python value.\<close>

fun truthy :: "pyval \<Rightarrow> bool" where
  "truthy VNone = False"
| "truthy (VBool b) = b"
| "truthy (VInt i) = (i \<noteq> 0)"
| "truthy (VStr s) = (s \<noteq> [])"
| "truthy (VList l) = (l \<noteq> [])"
| "truthy (VDict d) = (d \<noteq> [])"

fun py_contains :: "pyval \<Rightarrow> string \<Rightarrow> error + bool" where
  "py_contains (VDict d) k = Inr (dict_contains k d)"
| "py_contains (VStr s) k = Inr (sublist k s)"
| "py_contains (VList l) k = Inr (VStr k \<in> set l)"
| "py_contains v k = Inl (NotSubscriptable k)"

fun py_getitem :: "pyval \<Rightarrow> string \<Rightarrow> error + pyval" where
  "py_getitem (VDict d) k =
     (case dict_get d k of None \<Rightarrow> Inl (NoInputForKey k) | Some v \<Rightarrow> Inr v)"
| "py_getitem v k = Inl (NotSubscriptable k)"

text \<open>
  The loop of \<^verbatim>\<open>_finalize_legacy_parameters\<close> over the fields of the parameter
  class: \<open>ps\<close> are the configured parameters, \<open>new_way\<close> is
  \<^verbatim>\<open>params_defined_in_new_way\<close>.
\<close>

fun legacy_fields ::
  "pyval dict \<Rightarrow> pyval \<Rightarrow> (string \<times> bool \<times> pyval) list \<Rightarrow> pyval dict \<Rightarrow> string list \<Rightarrow>
   error + (pyval dict \<times> string list)" where
  "legacy_fields ps new_way [] vals missing_keys = Inr (vals, missing_keys)"
| "legacy_fields ps new_way ((field, required, default_value) # rest) vals missing_keys =
     (case dict_get ps field of
        Some v \<Rightarrow> legacy_fields ps new_way rest (dict_set vals field v) missing_keys
      | None \<Rightarrow>
          (case py_contains new_way field of
             Inl e \<Rightarrow> Inl e
           | Inr True \<Rightarrow>
               (case py_getitem new_way field of
                  Inl e \<Rightarrow> Inl e
                | Inr v \<Rightarrow> legacy_fields ps new_way rest (dict_set vals field v) missing_keys)
           | Inr False \<Rightarrow>
               if required then legacy_fields ps new_way rest vals (missing_keys @ [field])
               else legacy_fields ps new_way rest (dict_set vals field default_value)
                      missing_keys))"

text \<open>\<^verbatim>\<open>BaseStep._finalize_legacy_parameters\<close>\<close>

definition finalize_legacy_parameters :: "env \<Rightarrow> base_step \<Rightarrow> error + pyval dict" where
  "finalize_legacy_parameters E self =
     (case efd_params (entrypoint_definition self) of
        None \<Rightarrow> Inr []
      | Some params \<Rightarrow>
          (case p_annotation params of
             None \<Rightarrow> Inr []
           | Some annotation \<Rightarrow>
               let ps = parameters (configuration self);
                   new_way = (case dict_get ps (p_name params) of
                                None \<Rightarrow> VDict []
                              | Some v \<Rightarrow> if truthy v then v else VDict [])
               in case legacy_fields ps new_way (model_fields E annotation) [] [] of
                    Inl e \<Rightarrow> Inl e
                  | Inr (vals, missing_keys) \<Rightarrow>
                      if missing_keys \<noteq> []
                      then Inl (MissingStepParameter (name (configuration self)) missing_keys)
                      else
                        let vals' = (if model_extra_allow E annotation
                                     then dict_update vals ps else vals)
                        in if \<not> model_validates E annotation vals'
                           then Inl ParameterValidationFailed
                           else Inr vals'))"

text \<open>
  \<^verbatim>\<open>BaseStep._finalize_parameters\<close>: the loop over the configured parameters,
  then the entry of the parameter object.
\<close>

fun finalize_parameter_items ::
  "env \<Rightarrow> parameter list \<Rightarrow> pyval dict \<Rightarrow> pyval dict \<Rightarrow> error + pyval dict" where
  "finalize_parameter_items E sg [] params = Inr params"
| "finalize_parameter_items E sg ((key, v) # rest) params =
     (case List.find (\<lambda>p. p_name p = key) sg of
        None \<Rightarrow> finalize_parameter_items E sg rest params
      | Some p \<Rightarrow>
          (case p_annotation p of
             None \<Rightarrow> finalize_parameter_items E sg rest (dict_set params key v)
           | Some annotation \<Rightarrow>
               if issubclass annotation BaseModel then
                 (case model_dict E annotation v of
                    None \<Rightarrow> Inl (ModelValidationFailed key)
                  | Some d \<Rightarrow> finalize_parameter_items E sg rest (dict_set params key d))
               else finalize_parameter_items E sg rest (dict_set params key v)))"

definition finalize_parameters :: "env \<Rightarrow> base_step \<Rightarrow> error + pyval dict" where
  "finalize_parameters E self =
     (case finalize_parameter_items E (get_step_entrypoint_signature self)
             (parameters (configuration self)) [] of
        Inl e \<Rightarrow> Inl e
      | Inr params \<Rightarrow>
          (case efd_params (entrypoint_definition self) of
             None \<Rightarrow> Inr params
           | Some p \<Rightarrow>
               (case finalize_legacy_parameters E self of
                  Inl e \<Rightarrow> Inl e
                | Inr legacy_params \<Rightarrow> Inr (dict_set params (p_name p) (VDict legacy_params)))))"

text \<open>
  The types an output is resolved from: the members of a union, \<^verbatim>\<open>None\<close> read as
  \<^verbatim>\<open>type(None)\<close>, or the annotation itself.
\<close>

definition output_types :: "annotation \<Rightarrow> annotation list" where
  "output_types output_annotation =
     (if is_union (origin_or_self output_annotation)
      then map (\<lambda>output_type. if is_none_type output_type then NoneType else output_type)
             (get_args output_annotation)
      else [output_annotation])"

text \<open>The loop over \<^verbatim>\<open>output_types\<close>: the first unregistered type raises.\<close>

fun resolve_materializers ::
  "env \<Rightarrow> string \<Rightarrow> string \<Rightarrow> annotation list \<Rightarrow> error + source list" where
  "resolve_materializers E output_name step_name [] = Inr []"
| "resolve_materializers E output_name step_name (output_type # rest) =
     (case registry E output_type of
        None \<Rightarrow> Inl (MaterializerNotFound output_name output_type step_name)
      | Some materializer_class \<Rightarrow>
          (case resolve_materializers E output_name step_name rest of
             Inl e \<Rightarrow> Inl e
           | Inr sources \<Rightarrow> Inr (source_resolve E materializer_class # sources)))"

text \<open>
  One round of the loop of \<^verbatim>\<open>_finalize_configuration\<close> over the outputs of the
  entrypoint: \<open>None\<close> when the output has configured materializer sources, the resolved
  sources otherwise.
\<close>

definition finalize_output ::
  "env \<Rightarrow> base_step \<Rightarrow> string \<Rightarrow> annotation \<Rightarrow> error + source list option" where
  "finalize_output E self output_name output_annotation =
     (let output = (case dict_get (outputs (configuration self)) output_name of
                      None \<Rightarrow> \<lparr> materializer_source = None \<rparr>
                    | Some c \<Rightarrow> c)
      in if materializer_source output = None \<or> materializer_source output = Some []
         then
           if output_annotation = AnyType then Inl ExplicitMaterializerRequired
           else (case resolve_materializers E output_name (name (configuration self))
                        (output_types output_annotation) of
                   Inl e \<Rightarrow> Inl e
                 | Inr sources \<Rightarrow> Inr (Some sources))
         else Inr None)"

fun finalize_outputs ::
  "env \<Rightarrow> base_step \<Rightarrow> annotation dict \<Rightarrow> partial_artifact_configuration dict \<Rightarrow>
   error + partial_artifact_configuration dict" where
  "finalize_outputs E self [] outs = Inr outs"
| "finalize_outputs E self ((output_name, output_annotation) # rest) outs =
     (case finalize_output E self output_name output_annotation of
        Inl e \<Rightarrow> Inl e
      | Inr None \<Rightarrow> finalize_outputs E self rest outs
      | Inr (Some sources) \<Rightarrow>
          finalize_outputs E self rest
            (dict_set outs output_name \<lparr> materializer_source = Some sources \<rparr>))"

text \<open>
  Modelled from the spec: \<^verbatim>\<open>StepConfiguration.parse_obj\<close>, whose class is not
  among the sources. The finalized configuration is the "immutable snapshot" (3) of the
  step's configuration, with the same fields, taken as it is.
\<close>

definition StepConfiguration_parse_obj :: "step_configuration \<Rightarrow> step_configuration" where
  "StepConfiguration_parse_obj c = c"

text \<open>
  \<^verbatim>\<open>BaseStep._finalize_configuration\<close>, returning the step with its updated
  configuration and the finalized configuration.
\<close>

definition finalize_configuration ::
  "env \<Rightarrow> base_step \<Rightarrow> step_artifact dict \<Rightarrow> nat dict \<Rightarrow>
   error + (base_step \<times> step_configuration)" where
  "finalize_configuration E self input_artifacts external_artifacts =
     (case finalize_outputs E self (efd_outputs (entrypoint_definition self)) [] of
        Inl e \<Rightarrow> Inl e
      | Inr outs \<Rightarrow>
     (case finalize_parameters E self of
        Inl e \<Rightarrow> Inl e
      | Inr params \<Rightarrow>
     (case configure E self
             (default_args \<lparr> arg_parameters := Some params, arg_merge := False \<rparr>) of
        Inl e \<Rightarrow> Inl e
      | Inr self1 \<Rightarrow>
     (case validate_inputs self1 input_artifacts external_artifacts of
        Inl e \<Rightarrow> Inl e
      | Inr _ \<Rightarrow>
     (case apply_configuration E self1
             (empty_update \<lparr> upd_outputs := (if outs = [] then None else Some outs) \<rparr>)
             True of
        Inl e \<Rightarrow> Inl e
      | Inr self2 \<Rightarrow>
          let self3 =
            self2 \<lparr> configuration :=
                      (configuration self2)
                        \<lparr> caching_parameters := caching_parameters_of E self2,
                          external_input_artifacts := external_artifacts \<rparr> \<rparr>
          in Inr (self3, StepConfiguration_parse_obj (configuration self3)))))))"

section \<open>External artifacts\<close>

text \<open>
  The collaborators of the upload, as the spec lists them (6): the artifact store
  (\<^verbatim>\<open>fileio.exists\<close>, \<^verbatim>\<open>fileio.makedirs\<close>), the materializer that writes the
  value, the materializer registry, and the metadata store (\<^verbatim>\<open>create_artifact\<close>,
  \<^verbatim>\<open>get_artifact\<close>). Every call to one of them is recorded, in order.
\<close>

record artifact_request =
  req_name :: string
  req_type :: string
  req_uri :: string
  req_materializer :: source
  req_data_type :: source
  req_user :: nat
  req_workspace :: nat
  req_artifact_store_id :: nat

datatype call =
    GetArtifact nat
  | CreateArtifact artifact_request
  | FileExists string
  | MakeDirs string
  | MaterializerSave string string pyval
  | RegistryLookup annotation

text \<open>
  The state outside the step machinery: the active stack and user, the records of the
  metadata store by identifier, the URIs that exist in the artifact store, the supply of
  \<^verbatim>\<open>uuid4()\<close> values and of identifiers for new records, and the calls made so far.
\<close>

record world =
  active_artifact_store_id :: nat
  active_artifact_store_path :: string
  active_user_id :: nat
  active_workspace_id :: nat
  zen_store :: "(nat \<times> artifact_request) list"
  existing_uris :: "string list"
  uuid4_values :: "nat \<Rightarrow> string"
  uuid4_count :: nat
  next_artifact_id :: nat
  calls :: "call list"

definition record_call :: "call \<Rightarrow> world \<Rightarrow> world" where
  "record_call c w = w \<lparr> calls := calls w @ [c] \<rparr>"

text \<open>
  Modelled from the spec: the metadata store, which is not among the sources
  (6: \<^verbatim>\<open>getArtifactRecord(identifier)\<close> returns the record,
  \<^verbatim>\<open>createArtifactRecord(record)\<close> returns an identifier): the store keeps each
  record it creates under the identifier it returns, and a read of an unknown
  identifier raises.
\<close>

definition get_artifact :: "nat \<Rightarrow> world \<Rightarrow> (error + artifact_request) \<times> world" where
  "get_artifact artifact_id w =
     ((case map_of (zen_store w) artifact_id of
         None \<Rightarrow> Inl (UnknownArtifact artifact_id)
       | Some r \<Rightarrow> Inr r),
      record_call (GetArtifact artifact_id) w)"

definition create_artifact :: "artifact_request \<Rightarrow> world \<Rightarrow> nat \<times> world" where
  "create_artifact artifact w =
     (next_artifact_id w,
      record_call (CreateArtifact artifact)
        (w \<lparr> zen_store := AList.update (next_artifact_id w) artifact (zen_store w),
             next_artifact_id := Suc (next_artifact_id w) \<rparr>))"

definition uuid4 :: "world \<Rightarrow> string \<times> world" where
  "uuid4 w = (uuid4_values w (uuid4_count w), w \<lparr> uuid4_count := Suc (uuid4_count w) \<rparr>)"

text \<open>\<^verbatim>\<open>type(value)\<close>\<close>

fun type_of :: "pyval \<Rightarrow> annotation" where
  "type_of VNone = NoneType"
| "type_of (VBool b) = Class ''bool'' [''int'']"
| "type_of (VInt i) = Class ''int'' []"
| "type_of (VStr s) = Class ''str'' []"
| "type_of (VList l) = Class ''list'' []"
| "type_of (VDict d) = Class ''dict'' []"

text \<open>The name of a class (\<^verbatim>\<open>__name__\<close>).\<close>

fun type_name :: "annotation \<Rightarrow> string" where
  "type_name (Class n bs) = n"
| "type_name NoneType = ''NoneType''"
| "type_name _ = ''object''"

text \<open>
  \<^verbatim>\<open>ExternalArtifact._get_materializer\<close>: after the assertion that there is a
  value, the class given, the class a given source loads, or the class registered for
  the type of the value. An empty import path is falsy and falls to the registry.
\<close>

definition get_materializer ::
  "env \<Rightarrow> external_artifact \<Rightarrow> world \<Rightarrow> (error + string) \<times> world" where
  "get_materializer E self w =
     (if ea_value self = VNone then (Inl AssertionFailed, w)
      else case ea_materializer self of
        Some (MClass c) \<Rightarrow> (Inr c, w)
      | Some (MSource s) \<Rightarrow> (load_and_validate_class E s, w)
      | Some (MStr (x # xs)) \<Rightarrow> (load_and_validate_class E (x # xs), w)
      | _ \<Rightarrow>
          (let value_type = type_of (ea_value self);
               w' = record_call (RegistryLookup value_type) w
           in case registry E value_type of
                Some c \<Rightarrow> (Inr c, w')
              | None \<Rightarrow> (Inl (ExternalMaterializerNotFound value_type), w')))"

text \<open>
  \<^verbatim>\<open>ExternalArtifact.do_something\<close>: returns the identifier, the artifact object
  as the call leaves it, and the state; on an exception, the error and the state.
\<close>

definition do_something ::
  "env \<Rightarrow> external_artifact \<Rightarrow> world \<Rightarrow> (error + nat \<times> external_artifact) \<times> world" where
  "do_something E self w =
     (let artifact_store_id = active_artifact_store_id w in
      case ea_id self of
        Some i \<Rightarrow>
          (case get_artifact i w of
             (Inl e, w1) \<Rightarrow> (Inl e, w1)
           | (Inr response, w1) \<Rightarrow>
               if req_artifact_store_id response \<noteq> artifact_store_id
               then (Inl ArtifactStoreMismatch, w1)
               else (Inr (i, self), w1))
      | None \<Rightarrow>
          (let (u, w1) = uuid4 w;
               artifact_name = ''external_'' @ u
           in case get_materializer E self w1 of
                (Inl e, w2) \<Rightarrow> (Inl e, w2)
              | (Inr materializer_class, w2) \<Rightarrow>
                  let uri = active_artifact_store_path w2 @ ''/external_artifacts/''
                              @ artifact_name;
                      w3 = record_call (FileExists uri) w2
                  in if uri \<in> set (existing_uris w3) then (Inl ArtifactUriExists, w3)
                     else
                       let w4 = record_call (MakeDirs uri)
                                  (w3 \<lparr> existing_uris := uri # existing_uris w3 \<rparr>);
                           w5 = record_call
                                  (MaterializerSave materializer_class uri (ea_value self)) w4;
                           artifact =
                             \<lparr> req_name = artifact_name,
                               req_type = associated_artifact_type E materializer_class,
                               req_uri = uri,
                               req_materializer = source_resolve E materializer_class,
                               req_data_type =
                                 source_resolve E (type_name (type_of (ea_value self))),
                               req_user = active_user_id w5,
                               req_workspace = active_workspace_id w5,
                               req_artifact_store_id = artifact_store_id \<rparr>;
                           (response_id, w6) = create_artifact artifact w5
                       in (Inr (response_id, self \<lparr> ea_id := Some response_id \<rparr>), w6)))"

text \<open>The calls that write: to the artifact store and to the metadata store.\<close>

fun is_store_write :: "call \<Rightarrow> bool" where
  "is_store_write (CreateArtifact r) = True"
| "is_store_write (MaterializerSave c uri v) = True"
| "is_store_write (MakeDirs uri) = True"
| "is_store_write _ = False"

section \<open>Invocations and the pipeline\<close>

text \<open>
  \<^verbatim>\<open>StepInvocation\<close>. \<open>inv_step\<close> is the address of the step object; the pipeline
  holds the invocations by identifier (\<^verbatim>\<open>Pipeline.steps\<close>, each value an
  invocation object of its own) and the step objects by address.
\<close>

record step_invocation =
  inv_id :: string
  inv_step :: nat
  inv_input_artifacts :: "step_artifact dict"
  inv_external_artifacts :: "external_artifact dict"
  inv_parameters :: "pyval dict"
  invocation_upstream_steps :: "string set"

record pipeline =
  steps :: "step_invocation dict"
  objects :: "nat \<Rightarrow> base_step"

text \<open>The invocations of the pipeline whose step is the object at \<open>r\<close>.\<close>

definition invocations_of :: "pipeline \<Rightarrow> nat \<Rightarrow> step_invocation list" where
  "invocations_of p r = filter (\<lambda>invocation. inv_step invocation = r) (map snd (steps p))"

text \<open>
  The second loop of \<^verbatim>\<open>_get_and_validate_step_upstream_steps\<close>, over the steps
  given to \<^verbatim>\<open>after\<close>: the set of identifiers of the invocations of each.
\<close>

fun collect_upstream_steps :: "pipeline \<Rightarrow> nat list \<Rightarrow> string set \<Rightarrow> error + string set" where
  "collect_upstream_steps p [] acc = Inr acc"
| "collect_upstream_steps p (step_ref # rest) acc =
     (case remdups (map inv_id (invocations_of p step_ref)) of
        [] \<Rightarrow> collect_upstream_steps p rest acc
      | [i] \<Rightarrow> collect_upstream_steps p rest (insert i acc)
      | _ \<Rightarrow> Inl AmbiguousUpstreamSteps)"

text \<open>\<^verbatim>\<open>StepInvocation._get_and_validate_step_upstream_steps\<close>\<close>

definition get_and_validate_step_upstream_steps ::
  "pipeline \<Rightarrow> step_invocation \<Rightarrow> error + string set" where
  "get_and_validate_step_upstream_steps p self =
     (let step = objects p (inv_step self) in
      if upstream_steps step \<noteq> [] \<and> length (invocations_of p (inv_step self)) > 1
      then Inl AmbiguousUpstreamSteps
      else collect_upstream_steps p (upstream_steps step) {})"

text \<open>The property \<^verbatim>\<open>StepInvocation.upstream_steps\<close>\<close>

definition invocation_upstream_steps_of ::
  "pipeline \<Rightarrow> step_invocation \<Rightarrow> error + string set" where
  "invocation_upstream_steps_of p self =
     (case get_and_validate_step_upstream_steps p self of
        Inl e \<Rightarrow> Inl e
      | Inr ups \<Rightarrow> Inr (invocation_upstream_steps self \<union> ups))"

text \<open>
  The loop of \<^verbatim>\<open>finalize\<close> over the external artifacts: each is uploaded or
  checked, in order; the objects are updated in place.
\<close>

fun finalize_external_artifacts ::
  "env \<Rightarrow> external_artifact dict \<Rightarrow> nat dict \<Rightarrow> world \<Rightarrow>
   error + (nat dict \<times> external_artifact dict \<times> world)" where
  "finalize_external_artifacts E [] ids w = Inr (ids, [], w)"
| "finalize_external_artifacts E ((key, artifact) # rest) ids w =
     (case do_something E artifact w of
        (Inl e, w') \<Rightarrow> Inl e
      | (Inr (i, artifact'), w') \<Rightarrow>
          (case finalize_external_artifacts E rest (dict_set ids key i) w' of
             Inl e \<Rightarrow> Inl e
           | Inr (ids', rest', w'') \<Rightarrow> Inr (ids', (key, artifact') # rest', w'')))"

text \<open>
  \<^verbatim>\<open>StepInvocation.finalize\<close>: the finalized configuration, with the step object,
  the external artifacts and the state as the call leaves them.
\<close>

definition finalize ::
  "env \<Rightarrow> pipeline \<Rightarrow> step_invocation \<Rightarrow> world \<Rightarrow>
   error + (step_configuration \<times> base_step \<times> external_artifact dict \<times> world)" where
  "finalize E p self w =
     (case get_and_validate_step_upstream_steps p self of
        Inl e \<Rightarrow> Inl e
      | Inr _ \<Rightarrow>
     (case configure E (objects p (inv_step self))
             (default_args \<lparr> arg_parameters := Some (inv_parameters self) \<rparr>) of
        Inl e \<Rightarrow> Inl e
      | Inr step1 \<Rightarrow>
     (case finalize_external_artifacts E (inv_external_artifacts self) [] w of
        Inl e \<Rightarrow> Inl e
      | Inr (external_artifact_ids, artifacts', w') \<Rightarrow>
     (case finalize_configuration E step1 (inv_input_artifacts self) external_artifact_ids of
        Inl e \<Rightarrow> Inl e
      | Inr (step2, config) \<Rightarrow> Inr (config, step2, artifacts', w')))))"

section \<open>Calling a step inside a pipeline\<close>

text \<open>
  \<^verbatim>\<open>BaseStep._parse_call_args\<close>, from the bound arguments (what
  \<^verbatim>\<open>signature.bind_partial\<close> and \<^verbatim>\<open>apply_defaults\<close> return, \<open>None\<close> when the
  binding raises \<^verbatim>\<open>TypeError\<close>).
\<close>

fun parse_bound_arguments ::
  "env \<Rightarrow> base_step \<Rightarrow> call_value dict \<Rightarrow>
   step_artifact dict \<Rightarrow> external_artifact dict \<Rightarrow> pyval dict \<Rightarrow>
   error + (step_artifact dict \<times> external_artifact dict \<times> pyval dict)" where
  "parse_bound_arguments E self [] artifacts external_artifacts params =
     Inr (artifacts, external_artifacts, params)"
| "parse_bound_arguments E self ((key, v) # rest) artifacts external_artifacts params =
     (case validate_input E (entrypoint_definition self) key v of
        Inl e \<Rightarrow> Inl e
      | Inr _ \<Rightarrow>
          (case v of
             ArtifactValue a \<Rightarrow>
               parse_bound_arguments E self rest (dict_set artifacts key a)
                 external_artifacts params
           | ExternalValue x \<Rightarrow>
               parse_bound_arguments E self rest artifacts
                 (dict_set external_artifacts key x) params
           | ParameterValue pv \<Rightarrow>
               parse_bound_arguments E self rest artifacts external_artifacts
                 (dict_set params key pv)))"

definition parse_call_args ::
  "env \<Rightarrow> base_step \<Rightarrow> call_value dict option \<Rightarrow>
   error + (step_artifact dict \<times> external_artifact dict \<times> pyval dict)" where
  "parse_call_args E self bound_args =
     (case bound_args of
        None \<Rightarrow> Inl WrongCallArguments
      | Some arguments \<Rightarrow> parse_bound_arguments E self arguments [] [] [])"

text \<open>The \<^verbatim>\<open>after\<close> argument of a call: nothing, a string or a sequence of strings.\<close>

datatype after_argument =
    AfterNone
  | AfterStr string
  | AfterSequence "string list"

text \<open>What \<^verbatim>\<open>__call__\<close> passes to \<^verbatim>\<open>Pipeline.add_step\<close>.\<close>

record add_step_arguments =
  as_step :: nat
  as_input_artifacts :: "step_artifact dict"
  as_external_artifacts :: "external_artifact dict"
  as_parameters :: "pyval dict"
  as_upstream_steps :: "string set"
  as_custom_id :: "string option"
  as_allow_suffix :: bool

text \<open>
  The upstream steps \<^verbatim>\<open>__call__\<close> computes. \<^verbatim>\<open>set.add\<close> changes the set;
  \<^verbatim>\<open>set.union\<close> returns a new set and leaves the set it is called on as it was,
  and the source drops what it returns.
\<close>

definition set_union_result :: "string set \<Rightarrow> string list \<Rightarrow> string set" where
  "set_union_result s xs = s \<union> set xs"

definition call_upstream_steps :: "step_artifact dict \<Rightarrow> after_argument \<Rightarrow> string set" where
  "call_upstream_steps input_artifacts after_arg =
     (let ups = set (map (\<lambda>(key, artifact). sa_invocation_id artifact) input_artifacts) in
      case after_arg of
        AfterStr s \<Rightarrow> insert s ups
      | AfterSequence xs \<Rightarrow> (let dropped = set_union_result ups xs in ups)
      | AfterNone \<Rightarrow> ups)"

text \<open>
  \<^verbatim>\<open>BaseStep.__call__\<close> while a pipeline is active, for the step object at
  \<open>step_ref\<close>: the arguments of the \<^verbatim>\<open>add_step\<close> call.
\<close>

definition step_call ::
  "env \<Rightarrow> nat \<Rightarrow> base_step \<Rightarrow> call_value dict option \<Rightarrow> string option \<Rightarrow> after_argument \<Rightarrow>
   error + add_step_arguments" where
  "step_call E step_ref self bound_args custom_id after_arg =
     (case parse_call_args E self bound_args of
        Inl e \<Rightarrow> Inl e
      | Inr (input_artifacts, external_artifacts, params) \<Rightarrow>
          Inr \<lparr> as_step = step_ref,
                as_input_artifacts = input_artifacts,
                as_external_artifacts = external_artifacts,
                as_parameters = params,
                as_upstream_steps = call_upstream_steps input_artifacts after_arg,
                as_custom_id = custom_id,
                as_allow_suffix = (custom_id = None \<or> custom_id = Some []) \<rparr>)"

section \<open>Contracts\<close>

text \<open>An entrypoint input has a value: an artifact, a configured parameter or an external artifact.\<close>

definition input_is_bound ::
  "base_step \<Rightarrow> step_artifact dict \<Rightarrow> nat dict \<Rightarrow> string \<Rightarrow> bool" where
  "input_is_bound self input_artifacts external_artifacts key =
     (dict_contains key input_artifacts
      \<or> dict_contains key (parameters (configuration self))
      \<or> dict_contains key external_artifacts)"

definition unbound_inputs ::
  "base_step \<Rightarrow> step_artifact dict \<Rightarrow> nat dict \<Rightarrow> string list" where
  "unbound_inputs self input_artifacts external_artifacts =
     filter (\<lambda>key. \<not> input_is_bound self input_artifacts external_artifacts key)
       (map p_name (get_step_entrypoint_signature self))"

text \<open>An output has no configured materializer sources.\<close>

definition no_explicit_materializers :: "base_step \<Rightarrow> string \<Rightarrow> bool" where
  "no_explicit_materializers self output_name =
     (case dict_get (outputs (configuration self)) output_name of
        None \<Rightarrow> True
      | Some c \<Rightarrow> materializer_source c = None \<or> materializer_source c = Some [])"

text \<open>The member types of a union as they are looked up: \<^verbatim>\<open>None\<close> as \<^verbatim>\<open>type(None)\<close>.\<close>

definition union_member_types :: "annotation list \<Rightarrow> annotation list" where
  "union_member_types ms =
     map (\<lambda>m. if is_none_type (origin_or_self m) then NoneType else origin_or_self m) ms"

text \<open>The source of the materializer registered for a type (none: the empty path).\<close>

definition registered_source :: "env \<Rightarrow> annotation \<Rightarrow> source" where
  "registered_source E t =
     (case registry E t of None \<Rightarrow> [] | Some c \<Rightarrow> source_resolve E c)"

text \<open>The outputs that get an entry in the caching parameters.\<close>

definition has_materializers :: "partial_artifact_configuration \<Rightarrow> bool" where
  "has_materializers output =
     (case materializer_source output of None \<Rightarrow> False | Some ss \<Rightarrow> ss \<noteq> [])"

definition materializer_sources_of :: "partial_artifact_configuration \<Rightarrow> source list" where
  "materializer_sources_of output =
     (case materializer_source output of None \<Rightarrow> [] | Some ss \<Rightarrow> ss)"

text \<open>The configured outputs with their materializer sources, in order.\<close>

definition output_sources ::
  "partial_artifact_configuration dict \<Rightarrow> (string \<times> source list) list" where
  "output_sources os = map (\<lambda>(n, output). (n, materializer_sources_of output)) os"

text \<open>The identifiers of the invocations of the step object at \<open>r\<close>, each once.\<close>

definition upstream_invocation_ids :: "pipeline \<Rightarrow> nat \<Rightarrow> string list" where
  "upstream_invocation_ids p r = remdups (map inv_id (invocations_of p r))"

text \<open>
  An entrypoint parameter whose finalized value is the configured value itself: it is
  not annotated with a pydantic model class and is not the parameter object.
\<close>

definition plain_parameter :: "base_step \<Rightarrow> string \<Rightarrow> bool" where
  "plain_parameter step k =
     (case List.find (\<lambda>p. p_name p = k) (get_step_entrypoint_signature step) of
        None \<Rightarrow> False
      | Some p \<Rightarrow>
          (case p_annotation p of None \<Rightarrow> True | Some a \<Rightarrow> \<not> issubclass a BaseModel)
          \<and> (case efd_params (entrypoint_definition step) of
                None \<Rightarrow> True
              | Some q \<Rightarrow> p_name q \<noteq> k))"

text \<open>The \<^verbatim>\<open>parameters\<close> of the configuration a finalization returns, if it returns.\<close>

definition finalized_parameters ::
  "error + (step_configuration \<times> base_step \<times> external_artifact dict \<times> world) \<Rightarrow>
   pyval dict option" where
  "finalized_parameters r = (case r of Inl e \<Rightarrow> None | Inr (cfg, rest) \<Rightarrow> Some (parameters cfg))"

section \<open>A concrete environment\<close>

text \<open>
  One instance of the collaborators, used to run the model on concrete steps: every
  setting key, parameter value, source and hook is accepted; \<^verbatim>\<open>int\<close>, \<^verbatim>\<open>str\<close>
  and \<^verbatim>\<open>NoneType\<close> have a registered materializer; the classes \<^verbatim>\<open>StepA\<close> and
  \<^verbatim>\<open>StepB\<close> have the same source text.
\<close>

definition example_registry :: "annotation \<Rightarrow> string option" where
  "example_registry t =
     (if t = Class ''int'' [] then Some ''IntMaterializer''
      else if t = Class ''str'' [] then Some ''StrMaterializer''
      else if t = NoneType then Some ''NoneMaterializer''
      else None)"

definition example_getsource :: "string \<Rightarrow> string" where
  "example_getsource c =
     (if c = ''StepA'' \<or> c = ''StepB'' then ''def entrypoint(): ...'' else ''class '' @ c)"

definition example_env :: env where
  "example_env =
     \<lparr> validate_setting_keys = (\<lambda>keys. None),
       input_value_valid = (\<lambda>p v. True),
       model_dict = (\<lambda>a v. Some v),
       model_fields = (\<lambda>a. []),
       model_extra_allow = (\<lambda>a. False),
       model_validates = (\<lambda>a vs. True),
       validate_source_class = (\<lambda>s. True),
       resolve_and_validate_hook = (\<lambda>h. Inr h),
       source_resolve = (\<lambda>c. ''materializers.'' @ c),
       source_load = (\<lambda>s. drop 14 s),
       load_and_validate_class = (\<lambda>s. Inr (drop 14 s)),
       registry = example_registry,
       getsource = example_getsource,
       content_hash = (\<lambda>s. ''sha:'' @ s),
       md5_hexdigest = (\<lambda>s. ''md5:'' @ s),
       associated_artifact_type = (\<lambda>c. ''DataArtifact''),
       STEP_SOURCE_PARAMETER_NAME = ''step_source'' \<rparr>"

definition no_init_args :: init_args where
  "no_init_args =
     \<lparr> init_name = None, init_enable_cache = None, init_enable_artifact_metadata = None,
       init_enable_artifact_visualization = None, init_experiment_tracker = None,
       init_step_operator = None, init_parameters = None, init_output_materializers = None,
       init_settings = None, init_extra = None, init_on_failure = None,
       init_on_success = None \<rparr>"

definition int_parameter :: "string \<Rightarrow> parameter" where
  "int_parameter n =
     \<lparr> p_name = n, p_kind = POSITIONAL_OR_KEYWORD,
       p_annotation = Some (Class ''int'' []), p_default = None \<rparr>"

definition context_parameter :: "string \<Rightarrow> parameter" where
  "context_parameter n =
     \<lparr> p_name = n, p_kind = POSITIONAL_OR_KEYWORD,
       p_annotation = Some (Class ''StepContext'' []), p_default = None \<rparr>"

text \<open>
  A step of class \<open>cls\<close> whose entrypoint takes \<^verbatim>\<open>int\<close> inputs with the given names
  and returns one output annotated \<open>a\<close>, as the constructor leaves it.
\<close>

definition example_step :: "string \<Rightarrow> string list \<Rightarrow> annotation \<Rightarrow> base_step" where
  "example_step cls input_names a =
     \<lparr> class_name = cls,
       entrypoint = \<lparr> sig_parameters = map int_parameter input_names,
                      sig_return_annotation = Return a \<rparr>,
       upstream_steps = [],
       entrypoint_definition =
         \<lparr> efd_inputs = map (\<lambda>n. (n, int_parameter n)) input_names,
           efd_outputs = [(''output'', a)],
           efd_context = None,
           efd_params = None \<rparr>,
       configuration = PartialStepConfiguration cls None None None \<rparr>"

definition example_artifact :: "string \<Rightarrow> step_artifact" where
  "example_artifact invocation_id =
     \<lparr> sa_invocation_id = invocation_id, sa_output_name = ''output'',
       sa_annotation = Class ''int'' [] \<rparr>"

text \<open>The same step with the materializer sources of its output configured.\<close>

definition configured_step :: "string \<Rightarrow> source list \<Rightarrow> base_step" where
  "configured_step cls sources =
     (example_step cls [] (Class ''int'' []))
       \<lparr> configuration :=
           (PartialStepConfiguration cls None None None)
             \<lparr> outputs := [(''output'', \<lparr> materializer_source = Some sources \<rparr>)] \<rparr> \<rparr>"

text \<open>
  A state with an empty metadata store and artifact store, and an external artifact
  built from the value \<^verbatim>\<open>5\<close>.
\<close>

definition example_world :: world where
  "example_world =
     \<lparr> active_artifact_store_id = 7, active_artifact_store_path = ''/store'',
       active_user_id = 1, active_workspace_id = 2, zen_store = [], existing_uris = [],
       uuid4_values = (\<lambda>n. replicate (Suc n) CHR ''u''), uuid4_count = 0,
       next_artifact_id = 0, calls = [] \<rparr>"

definition example_external :: external_artifact where
  "example_external =
     \<lparr> ea_value = VInt 5, ea_id = None, ea_materializer = None,
       ea_store_artifact_metadata = True, ea_skip_type_checking = False \<rparr>"

text \<open>
  A pipeline with two step objects: the one at address 0 was given the one at
  address 1 with \<^verbatim>\<open>after\<close>. \<open>example_pipeline ids\<close> has one invocation per identifier
  and address in \<open>ids\<close>.
\<close>

definition example_invocation :: "string \<Rightarrow> nat \<Rightarrow> step_invocation" where
  "example_invocation i r =
     \<lparr> inv_id = i, inv_step = r, inv_input_artifacts = [], inv_external_artifacts = [],
       inv_parameters = [], invocation_upstream_steps = {} \<rparr>"

definition example_pipeline :: "(string \<times> nat) list \<Rightarrow> pipeline" where
  "example_pipeline ids =
     \<lparr> steps = map (\<lambda>(i, r). (i, example_invocation i r)) ids,
       objects = (\<lambda>r. if r = 0 then after (example_step ''StepA'' [] (Class ''int'' [])) 1
                       else example_step ''StepB'' [] (Class ''int'' [])) \<rparr>"

text \<open>
  A step with the inputs \<^verbatim>\<open>x\<close> and \<^verbatim>\<open>y\<close> whose configuration already holds the
  parameter \<^verbatim>\<open>x = 1\<close>, and an invocation of it that passes \<^verbatim>\<open>y = 2\<close>.
\<close>

definition parameter_step :: base_step where
  "parameter_step =
     (example_step ''StepA'' [''x'', ''y''] (Class ''int'' []))
       \<lparr> configuration :=
           (PartialStepConfiguration ''StepA'' None None None)
             \<lparr> parameters := [(''x'', VInt 1)] \<rparr> \<rparr>"

definition parameter_invocation :: step_invocation where
  "parameter_invocation = (example_invocation ''a'' 0) \<lparr> inv_parameters := [(''y'', VInt 2)] \<rparr>"

definition parameter_pipeline :: pipeline where
  "parameter_pipeline =
     \<lparr> steps = [(''a'', parameter_invocation)], objects = (\<lambda>r. parameter_step) \<rparr>"

section \<open>Contracts of finalization\<close>

text \<open>A Python value that is a mapping.\<close>

fun is_mapping :: "pyval \<Rightarrow> bool" where
  "is_mapping (VDict d) = True"
| "is_mapping _ = False"

text \<open>The names of the inputs of a step's interface.\<close>

definition interface_inputs :: "base_step \<Rightarrow> string list" where
  "interface_inputs self = dict_keys (efd_inputs (entrypoint_definition self))"

text \<open>
  The parameter object of the interface, if there is one, has a value, or is not asked
  for one because its class is also a step context class.
\<close>

definition parameter_object_bound ::
  "base_step \<Rightarrow> step_artifact dict \<Rightarrow> nat dict \<Rightarrow> bool" where
  "parameter_object_bound self input_artifacts external_artifacts =
     (case efd_params (entrypoint_definition self) of
        None \<Rightarrow> True
      | Some q \<Rightarrow>
          is_step_context_param (p_annotation q)
          \<or> input_is_bound self input_artifacts external_artifacts (p_name q))"

text \<open>
  A step with the input \<^verbatim>\<open>x\<close> and a context parameter \<^verbatim>\<open>ctx\<close>, as the
  constructor leaves it.
\<close>

definition context_step :: base_step where
  "context_step =
     \<lparr> class_name = ''StepC'',
       entrypoint = \<lparr> sig_parameters = [int_parameter ''x'', context_parameter ''ctx''],
                      sig_return_annotation = Return (Class ''int'' []) \<rparr>,
       upstream_steps = [],
       entrypoint_definition =
         \<lparr> efd_inputs = [(''x'', int_parameter ''x'')],
           efd_outputs = [(''output'', Class ''int'' [])],
           efd_context = Some (context_parameter ''ctx''),
           efd_params = None \<rparr>,
       configuration = PartialStepConfiguration ''StepC'' None None None \<rparr>"

section \<open>Results: dictionaries\<close>

lemma dict_get_set: "dict_get (dict_set d k v) k' = (if k' = k then Some v else dict_get d k')"
  by (simp add: dict_get_def dict_set_def update_conv')

section \<open>Results: signature analysis\<close>


lemma validate_parameters_ok:
  "well_formed_parameters ps c q \<Longrightarrow>
   validate_parameters ps i c q =
     Inr (fold (\<lambda>(k, v) acc. dict_set acc k v)
            (map (\<lambda>p. (p_name p, p)) (filter is_input_parameter ps)) i,
          (case c of None \<Rightarrow> List.find is_context_parameter ps | Some x \<Rightarrow> Some x),
          (case q of None \<Rightarrow> List.find is_parameter_object ps | Some x \<Rightarrow> Some x))"
proof (induction ps arbitrary: i c q)
  case Nil
  then show ?case by (simp split: option.splits)
next
  case (Cons p ps)
  then show ?case
    by (cases "p_annotation p")
       (auto simp: well_formed_parameters_def is_variadic_def is_parameter_object_def
          is_context_parameter_def is_input_parameter_def split: option.splits if_splits)
qed

lemma validate_parameters_bad:
  "\<not> well_formed_parameters ps c q \<Longrightarrow> \<exists>e. validate_parameters ps i c q = Inl e"
proof (induction ps arbitrary: i c q)
  case Nil
  then show ?case by (auto simp: well_formed_parameters_def split: option.splits if_splits)
next
  case (Cons p ps)
  then show ?case
    by (cases "p_annotation p")
       (auto simp: well_formed_parameters_def is_variadic_def is_parameter_object_def
          is_context_parameter_def is_input_parameter_def split: option.splits if_splits)
qed




section \<open>Results: creating a step\<close>

lemma validate_entrypoint_function_Inr:
  "validate_entrypoint_function sg [] = Inr efd \<Longrightarrow> efd = full_interface sg"
proof (cases "well_formed_parameters (sig_parameters sg) None None")
  case True
  assume a: "validate_entrypoint_function sg [] = Inr efd"
  from validate_parameters_ok [OF True, of "[]"] a show ?thesis
    by (simp add: validate_entrypoint_function_def full_interface_def dict_of_items_def
          split: if_splits)
next
  case False
  assume a: "validate_entrypoint_function sg [] = Inr efd"
  from validate_parameters_bad [OF False, of "[]"] a show ?thesis
    by (auto simp: validate_entrypoint_function_def)
qed

lemma find_None_iff_list_ex: "(List.find P xs = None) = (\<not> list_ex P xs)"
  by (induction xs) auto

lemma apply_configuration_Inr:
  "apply_configuration E self config m = Inr self' \<Longrightarrow>
   self' = self \<lparr> configuration := update_model (configuration self) config m \<rparr>"
  by (auto simp: apply_configuration_def split: sum.splits)

lemma configure_enable_cache:
  "configure E self args = Inr self' \<Longrightarrow> arg_enable_cache args = None \<Longrightarrow>
   enable_cache (configuration self') = enable_cache (configuration self)"
  by (auto simp: configure_def Let_def update_model_def replace_field_def
        dest!: apply_configuration_Inr split: sum.splits)

lemma configure_entrypoint_definition:
  "configure E self args = Inr self' \<Longrightarrow>
   entrypoint_definition self' = entrypoint_definition self"
  by (auto simp: configure_def Let_def dest!: apply_configuration_Inr split: sum.splits)

lemma verify_and_apply_init_params_enable_cache:
  "verify_and_apply_init_params E self args kwargs = Inr self' \<Longrightarrow>
   enable_cache (configuration self') = enable_cache (configuration self)"
  by (auto simp: verify_and_apply_init_params_def Let_def default_args_def
        split: if_splits option.splits sum.splits list.splits prod.splits
        dest!: configure_enable_cache)

lemma init_step_Inr:
  assumes "init_step E cls sg args ia kwargs = Inr self"
  shows "\<exists>efd s0 cargs s1.
           validate_entrypoint_function sg [] = Inr efd
         \<and> configure E s0 cargs = Inr s1
         \<and> verify_and_apply_init_params E s1 args kwargs = Inr self
         \<and> arg_enable_cache cargs = None
         \<and> enable_cache (configuration s0) =
             (if init_enable_cache ia = None
              then (if efd_context efd = None then None else Some False)
              else init_enable_cache ia)"
proof -
  from assms obtain efd where efd: "validate_entrypoint_function sg [] = Inr efd"
    by (auto simp: init_step_def split: sum.splits)
  define s0 where "s0 = \<lparr> class_name = cls, entrypoint = sg, upstream_steps = [],
                       entrypoint_definition = efd,
                       configuration =
                         PartialStepConfiguration
                           (case init_name ia of None \<Rightarrow> cls | Some s \<Rightarrow> if s = [] then cls else s)
                           (if init_enable_cache ia = None
                            then (if efd_context efd \<noteq> None then Some False else None)
                            else init_enable_cache ia)
                           (init_enable_artifact_metadata ia)
                           (init_enable_artifact_visualization ia) \<rparr>"
  define cargs where "cargs = default_args
                       \<lparr> arg_experiment_tracker := init_experiment_tracker ia,
                         arg_step_operator := init_step_operator ia,
                         arg_output_materializers := init_output_materializers ia,
                         arg_parameters := init_parameters ia,
                         arg_settings := init_settings ia,
                         arg_extra := init_extra ia,
                         arg_on_failure := init_on_failure ia,
                         arg_on_success := init_on_success ia \<rparr>"
  have unfolded: "init_step E cls sg args ia kwargs =
      (case configure E s0 cargs of Inl e \<Rightarrow> Inl e
       | Inr s1 \<Rightarrow> verify_and_apply_init_params E s1 args kwargs)"
    unfolding init_step_def Let_def s0_def cargs_def using efd by simp
  with assms obtain s1 where "configure E s0 cargs = Inr s1"
    and "verify_and_apply_init_params E s1 args kwargs = Inr self"
    by (auto split: sum.splits)
  moreover have "arg_enable_cache cargs = None"
    by (simp add: cargs_def default_args_def)
  moreover have "enable_cache (configuration s0) =
             (if init_enable_cache ia = None
              then (if efd_context efd = None then None else Some False)
              else init_enable_cache ia)"
    by (simp add: s0_def PartialStepConfiguration_def)
  ultimately show ?thesis using efd by blast
qed

text \<open>
  Claim C10. When \<^verbatim>\<open>enable_cache\<close> is not passed to the constructor, the
  configuration of the new step has \<^verbatim>\<open>enable_cache = False\<close> if the entrypoint
  declares a context parameter, and leaves it unset otherwise.
\<close>

theorem init_step_enable_cache_default:
  assumes "init_step E cls sg args ia kwargs = Inr self"
    and "init_enable_cache ia = None"
  shows "enable_cache (configuration self) =
           (if list_ex is_context_parameter (sig_parameters sg) then Some False else None)"
proof -
  from init_step_Inr [OF assms(1)] obtain efd s0 cargs s1 where
      efd: "validate_entrypoint_function sg [] = Inr efd"
    and s1: "configure E s0 cargs = Inr s1"
    and s2: "verify_and_apply_init_params E s1 args kwargs = Inr self"
    and c: "arg_enable_cache cargs = None"
    and s0: "enable_cache (configuration s0) =
             (if init_enable_cache ia = None
              then (if efd_context efd = None then None else Some False)
              else init_enable_cache ia)"
    by blast
  have ctx: "(efd_context efd = None) = (\<not> list_ex is_context_parameter (sig_parameters sg))"
    using validate_entrypoint_function_Inr [OF efd]
    by (simp add: full_interface_def find_None_iff_list_ex)
  from verify_and_apply_init_params_enable_cache [OF s2] configure_enable_cache [OF s1 c]
    s0 assms(2) ctx
  show ?thesis by simp
qed


lemmas signature_defs =
  validate_entrypoint_function_def is_variadic_def is_parameter_object_def
  is_context_parameter_def is_input_parameter_def BaseParameters_def StepContext_def
  dict_of_items_def dict_set_def dict_get_def dict_keys_def dict_contains_def
  parse_return_type_annotations_def resolve_type_annotation_def origin_or_self_def
  is_union_def SINGLE_RETURN_OUT_NAME_def int_parameter_def context_parameter_def

lemmas configure_defs =
  configure_def apply_configuration_def validate_configuration_def update_model_def
  replace_field_def merge_mapping_def merge_dicts_def configured_outputs_def
  resolve_hook_def or_empty_def default_args_def example_env_def validate_input_def
  merge_artifact_configuration_def dict_update_def

lemmas init_defs =
  init_step_def verify_and_apply_init_params_def PartialStepConfiguration_def
  no_init_args_def

theorem init_step_enable_cache_default_witness:
  "(\<exists>self. init_step example_env ''StepA''
             \<lparr> sig_parameters = [int_parameter ''x'', context_parameter ''ctx''],
               sig_return_annotation = Return (Class ''int'' []) \<rparr> [] no_init_args [] = Inr self
          \<and> enable_cache (configuration self) = Some False)
   \<and> (\<exists>self. init_step example_env ''StepA''
             \<lparr> sig_parameters = [int_parameter ''x''],
               sig_return_annotation = Return (Class ''int'' []) \<rparr> [] no_init_args [] = Inr self
          \<and> enable_cache (configuration self) = None)"
proof -
  have 1: "\<exists>self. init_step example_env ''StepA''
             \<lparr> sig_parameters = [int_parameter ''x'', context_parameter ''ctx''],
               sig_return_annotation = Return (Class ''int'' []) \<rparr> [] no_init_args [] = Inr self"
    by (simp add: init_defs configure_defs signature_defs Let_def)
  have 2: "\<exists>self. init_step example_env ''StepA''
             \<lparr> sig_parameters = [int_parameter ''x''],
               sig_return_annotation = Return (Class ''int'' []) \<rparr> [] no_init_args [] = Inr self"
    by (simp add: init_defs configure_defs signature_defs Let_def)
  from 1 obtain s1 where s1: "init_step example_env ''StepA''
             \<lparr> sig_parameters = [int_parameter ''x'', context_parameter ''ctx''],
               sig_return_annotation = Return (Class ''int'' []) \<rparr> [] no_init_args [] = Inr s1"
    by blast
  from 2 obtain s2 where s2: "init_step example_env ''StepA''
             \<lparr> sig_parameters = [int_parameter ''x''],
               sig_return_annotation = Return (Class ''int'' []) \<rparr> [] no_init_args [] = Inr s2"
    by blast
  have n: "init_enable_cache no_init_args = None" by (simp add: no_init_args_def)
  from init_step_enable_cache_default [OF s1 n] init_step_enable_cache_default [OF s2 n] s1 s2
  show ?thesis
    by (simp add: signature_defs)
qed

section \<open>Results: merging\<close>

text \<open>
  Claim C9. Applying an update with merging disabled is idempotent: applying it a
  second time to the result changes nothing.
\<close>

theorem update_model_idempotent:
  "update_model (update_model base u False) u False = update_model base u False"
  by (simp add: update_model_def replace_field_def merge_mapping_def split: option.splits)

section \<open>Results: output materializers\<close>

lemma output_types_Union: "output_types (Union ms) = union_member_types ms"
  by (simp add: output_types_def origin_or_self_def is_union_def get_args_def
        union_member_types_def)

lemma resolve_materializers_char:
  "resolve_materializers E n s ts =
     (case List.find (\<lambda>t. registry E t = None) ts of
        None \<Rightarrow> Inr (map (registered_source E) ts)
      | Some t \<Rightarrow> Inl (MaterializerNotFound n t s))"
  by (induction ts) (auto simp: registered_source_def split: option.splits)

lemma dict_get_Cons: "dict_get ((a, b) # d) k = (if k = a then Some b else dict_get d k)"
  by (simp add: dict_get_def)

lemma dict_get_Nil: "dict_get [] k = None"
  by (simp add: dict_get_def)

lemma distinct_dict_set: "distinct (dict_keys d) \<Longrightarrow> distinct (dict_keys (dict_set d k v))"
  by (simp add: dict_keys_def dict_set_def distinct_update)

lemma finalize_outputs_other:
  "finalize_outputs E self os acc = Inr outs \<Longrightarrow> n \<notin> fst ` set os \<Longrightarrow>
   dict_get outs n = dict_get acc n"
  by (induction os arbitrary: acc)
     (auto simp: dict_get_set split: sum.splits option.splits)

lemma finalize_outputs_distinct:
  "finalize_outputs E self os acc = Inr outs \<Longrightarrow> distinct (dict_keys acc) \<Longrightarrow>
   distinct (dict_keys outs)"
  by (induction os arbitrary: acc)
     (auto simp: distinct_dict_set split: sum.splits option.splits)

lemma finalize_outputs_entry:
  "finalize_outputs E self os acc = Inr outs \<Longrightarrow> (n, a) \<in> set os \<Longrightarrow>
   distinct (map fst os) \<Longrightarrow>
   \<exists>r. finalize_output E self n a = Inr r
     \<and> dict_get outs n =
         (case r of None \<Rightarrow> dict_get acc n
          | Some sources \<Rightarrow> Some \<lparr> materializer_source = Some sources \<rparr>)"
proof (induction os arbitrary: acc)
  case Nil
  then show ?case by simp
next
  case (Cons x os)
  obtain m b where x: "x = (m, b)" by (cases x)
  show ?case
  proof (cases "(n, a) = (m, b)")
    case True
    with Cons.prems x have notin: "n \<notin> fst ` set os" by auto
    from Cons.prems(1) x True show ?thesis
      by (auto simp: dict_get_set split: sum.splits option.splits
            dest!: finalize_outputs_other [OF _ notin])
  next
    case False
    with Cons.prems x have mem: "(n, a) \<in> set os" and d: "distinct (map fst os)"
      and ne: "n \<noteq> m" by (auto simp: rev_image_eqI)
    from Cons.prems(1) x obtain acc' where
      rest: "finalize_outputs E self os acc' = Inr outs"
      and acc': "dict_get acc' n = dict_get acc n"
      using ne by (auto simp: dict_get_set split: sum.splits option.splits)
    from Cons.IH [OF rest mem d] show ?thesis unfolding acc' .
  qed
qed

lemma finalize_outputs_first_failure:
  "list_all (\<lambda>(m, b). \<exists>r. finalize_output E self m b = Inr r) pre \<Longrightarrow>
   finalize_output E self n a = Inl e \<Longrightarrow>
   finalize_outputs E self (pre @ (n, a) # rest) acc = Inl e"
  by (induction pre arbitrary: acc) (auto split: sum.splits option.splits)

lemma finalize_outputs_fails:
  "(n, a) \<in> set os \<Longrightarrow> finalize_output E self n a = Inl e \<Longrightarrow>
   \<exists>e'. finalize_outputs E self os acc = Inl e'"
  by (induction os arbitrary: acc) (auto split: sum.splits option.splits)

lemma dict_get_merge_dicts:
  "distinct (dict_keys u) \<Longrightarrow>
   dict_get (merge_dicts f d u) k =
     (case dict_get u k of
        None \<Rightarrow> dict_get d k
      | Some v \<Rightarrow> (case dict_get d k of None \<Rightarrow> Some v | Some old \<Rightarrow> Some (f old v)))"
proof (induction u arbitrary: d)
  case Nil
  then show ?case by (simp add: merge_dicts_def dict_get_Nil)
next
  case (Cons x u)
  obtain a b where x: "x = (a, b)" by (cases x)
  from Cons.prems x have d: "distinct (dict_keys u)" and notin: "a \<notin> set (dict_keys u)"
    by (auto simp: dict_keys_def)
  have step: "merge_dicts f d (x # u) =
      merge_dicts f (dict_set d a (case dict_get d a of None \<Rightarrow> b | Some old \<Rightarrow> f old b)) u"
    by (simp add: merge_dicts_def x)
  from notin have none: "dict_get u a = None"
    by (simp add: dict_get_def dict_keys_def map_of_eq_None_iff)
  show ?case
    unfolding step Cons.IH [OF d]
    using none x
    by (auto simp: dict_get_set dict_get_Cons split: option.splits)
qed


lemma update_model_parameters_only:
  "update_model c (empty_update \<lparr> upd_parameters := Some ps \<rparr>) m =
     c \<lparr> parameters := merge_mapping m merge_value (parameters c) (Some ps) \<rparr>"
  by (simp add: update_model_def empty_update_def replace_field_def merge_mapping_def)

lemma update_model_outputs_only:
  "update_model c (empty_update \<lparr> upd_outputs := os \<rparr>) m =
     c \<lparr> outputs := merge_mapping m merge_artifact_configuration (outputs c) os \<rparr>"
  by (simp add: update_model_def empty_update_def replace_field_def merge_mapping_def)

lemma configure_parameters_unfold:
  "configure E self (default_args \<lparr> arg_parameters := Some ps, arg_merge := m \<rparr>) =
     apply_configuration E self (empty_update \<lparr> upd_parameters := Some ps \<rparr>) m"
  by (simp add: configure_def Let_def default_args_def resolve_hook_def
        configured_outputs_def empty_update_def)

lemma configure_parameters_only:
  "configure E self (default_args \<lparr> arg_parameters := Some ps, arg_merge := m \<rparr>) = Inr self1 \<Longrightarrow>
   self1 = self \<lparr> configuration := (configuration self)
             \<lparr> parameters := merge_mapping m merge_value (parameters (configuration self)) (Some ps) \<rparr> \<rparr>"
  unfolding configure_parameters_unfold
  by (drule apply_configuration_Inr) (simp add: update_model_parameters_only)


lemma finalize_configuration_Inr:
  assumes "finalize_configuration E self ia ea = Inr (self', cfg)"
  shows "\<exists>outs params self1 self2.
           finalize_outputs E self (efd_outputs (entrypoint_definition self)) [] = Inr outs
         \<and> finalize_parameters E self = Inr params
         \<and> configure E self (default_args \<lparr> arg_parameters := Some params, arg_merge := False \<rparr>)
             = Inr self1
         \<and> validate_inputs self1 ia ea = Inr ()
         \<and> apply_configuration E self1
              (empty_update \<lparr> upd_outputs := (if outs = [] then None else Some outs) \<rparr>) True
             = Inr self2
         \<and> cfg = (configuration self2)
                    \<lparr> caching_parameters := caching_parameters_of E self2,
                      external_input_artifacts := ea \<rparr>
         \<and> self' = self2 \<lparr> configuration := cfg \<rparr>"
proof -
  note a = assms [unfolded finalize_configuration_def]
  obtain outs where 1:
    "finalize_outputs E self (efd_outputs (entrypoint_definition self)) [] = Inr outs"
    using a by (cases "finalize_outputs E self (efd_outputs (entrypoint_definition self)) []")
      simp_all
  note a = a [unfolded 1 sum.case]
  obtain params where 2: "finalize_parameters E self = Inr params"
    using a by (cases "finalize_parameters E self") simp_all
  note a = a [unfolded 2 sum.case]
  obtain self1 where 3:
    "configure E self (default_args \<lparr> arg_parameters := Some params, arg_merge := False \<rparr>)
       = Inr self1"
    using a
    by (cases "configure E self (default_args \<lparr> arg_parameters := Some params, arg_merge := False \<rparr>)")
      simp_all
  note a = a [unfolded 3 sum.case]
  have 4: "validate_inputs self1 ia ea = Inr ()"
    using a by (cases "validate_inputs self1 ia ea") simp_all
  note a = a [unfolded 4 sum.case]
  obtain self2 where 5:
    "apply_configuration E self1
       (empty_update \<lparr> upd_outputs := (if outs = [] then None else Some outs) \<rparr>) True
     = Inr self2"
    using a
    by (cases "apply_configuration E self1
       (empty_update \<lparr> upd_outputs := (if outs = [] then None else Some outs) \<rparr>) True")
      simp_all
  note a = a [unfolded 5 sum.case Let_def]
  from a have "cfg = (configuration self2)
                    \<lparr> caching_parameters := caching_parameters_of E self2,
                      external_input_artifacts := ea \<rparr>"
    and "self' = self2 \<lparr> configuration := cfg \<rparr>"
    by (auto simp: StepConfiguration_parse_obj_def)
  with 1 2 3 4 5 show ?thesis by blast
qed


lemma finalize_output_union:
  assumes "no_explicit_materializers self output_name"
  shows "finalize_output E self output_name (Union ms) =
           (case List.find (\<lambda>t. registry E t = None) (union_member_types ms) of
              None \<Rightarrow> Inr (Some (map (registered_source E) (union_member_types ms)))
            | Some t \<Rightarrow> Inl (MaterializerNotFound output_name t (name (configuration self))))"
  using assms
  by (auto simp: finalize_output_def no_explicit_materializers_def Let_def
        output_types_Union resolve_materializers_char split: option.splits)

lemma finalize_configuration_outputs:
  assumes fin: "finalize_configuration E self ia ea = Inr (self', cfg)"
    and mem: "dict_get (efd_outputs (entrypoint_definition self)) n = Some a"
    and dist: "distinct (dict_keys (efd_outputs (entrypoint_definition self)))"
    and res: "finalize_output E self n a = Inr (Some sources)"
  shows "\<exists>c. dict_get (outputs cfg) n = Some c \<and> materializer_source c = Some sources"
proof -
  from finalize_configuration_Inr [OF fin] obtain outs params self1 self2 where
      1: "finalize_outputs E self (efd_outputs (entrypoint_definition self)) [] = Inr outs"
    and 3: "configure E self (default_args \<lparr> arg_parameters := Some params, arg_merge := False \<rparr>)
             = Inr self1"
    and 5: "apply_configuration E self1
              (empty_update \<lparr> upd_outputs := (if outs = [] then None else Some outs) \<rparr>) True
             = Inr self2"
    and cfg: "cfg = (configuration self2)
                    \<lparr> caching_parameters := caching_parameters_of E self2,
                      external_input_artifacts := ea \<rparr>"
    by blast
  from mem have in_set: "(n, a) \<in> set (efd_outputs (entrypoint_definition self))"
    by (simp add: dict_get_def map_of_SomeD)
  from dist have d: "distinct (map fst (efd_outputs (entrypoint_definition self)))"
    by (simp add: dict_keys_def)
  from finalize_outputs_entry [OF 1 in_set d] res
  have entry: "dict_get outs n = Some \<lparr> materializer_source = Some sources \<rparr>"
    by auto
  then have ne: "outs \<noteq> []" by (auto simp: dict_get_Nil)
  have dout: "distinct (dict_keys outs)"
    by (rule finalize_outputs_distinct [OF 1]) (simp add: dict_keys_def)
  from apply_configuration_Inr [OF 5] ne
  have "outputs (configuration self2) =
          merge_dicts merge_artifact_configuration (outputs (configuration self1)) outs"
    by (simp add: update_model_outputs_only merge_mapping_def)
  with cfg have "dict_get (outputs cfg) n =
      (case dict_get (outputs (configuration self1)) n of
         None \<Rightarrow> Some \<lparr> materializer_source = Some sources \<rparr>
       | Some old \<Rightarrow> Some (merge_artifact_configuration old
                             \<lparr> materializer_source = Some sources \<rparr>))"
    by (simp add: dict_get_merge_dicts [OF dout] entry)
  then show ?thesis
    by (auto simp: merge_artifact_configuration_def replace_field_def split: option.splits)
qed

text \<open>
  Claim C5. For an output declared as a union and without configured materializer
  sources, finalization looks the members up in declared order, \<^verbatim>\<open>None\<close> as
  \<^verbatim>\<open>type(None)\<close>: when every member is registered, the output's materializer list
  is the registered materializers' sources, one per member in that order, and a
  finalized configuration holds exactly that list; when a member is not registered,
  the lookup raises a \<^verbatim>\<open>StepInterfaceError\<close> naming the output and the first
  unregistered member, and finalization fails, with that error when the outputs before
  this one resolve.
\<close>

theorem union_output_materializers:
  assumes out: "dict_get (efd_outputs (entrypoint_definition self)) output_name = Some (Union ms)"
    and dist: "distinct (dict_keys (efd_outputs (entrypoint_definition self)))"
    and noexp: "no_explicit_materializers self output_name"
  shows "finalize_output E self output_name (Union ms) =
           (case List.find (\<lambda>t. registry E t = None) (union_member_types ms) of
              None \<Rightarrow> Inr (Some (map (registered_source E) (union_member_types ms)))
            | Some t \<Rightarrow> Inl (MaterializerNotFound output_name t (name (configuration self))))
       \<and> exception_class_of (MaterializerNotFound output_name t' (name (configuration self)))
           = StepInterfaceError
       \<and> (\<forall>self' cfg. finalize_configuration E self ia ea = Inr (self', cfg) \<longrightarrow>
            List.find (\<lambda>t. registry E t = None) (union_member_types ms) = None
          \<and> (\<exists>c. dict_get (outputs cfg) output_name = Some c
               \<and> materializer_source c =
                   Some (map (registered_source E) (union_member_types ms))))
       \<and> (\<forall>t. List.find (\<lambda>t. registry E t = None) (union_member_types ms) = Some t \<longrightarrow>
            (\<exists>e. finalize_configuration E self ia ea = Inl e))
       \<and> (\<forall>t pre rest.
             List.find (\<lambda>t. registry E t = None) (union_member_types ms) = Some t
           \<and> efd_outputs (entrypoint_definition self) = pre @ (output_name, Union ms) # rest
           \<and> list_all (\<lambda>(m, b). \<exists>r. finalize_output E self m b = Inr r) pre \<longrightarrow>
             finalize_configuration E self ia ea
               = Inl (MaterializerNotFound output_name t (name (configuration self))))"
proof (intro conjI allI impI)
  show a: "finalize_output E self output_name (Union ms) =
           (case List.find (\<lambda>t. registry E t = None) (union_member_types ms) of
              None \<Rightarrow> Inr (Some (map (registered_source E) (union_member_types ms)))
            | Some t \<Rightarrow> Inl (MaterializerNotFound output_name t (name (configuration self))))"
    by (rule finalize_output_union [OF noexp])
  from out have in_set: "(output_name, Union ms) \<in> set (efd_outputs (entrypoint_definition self))"
    by (simp add: dict_get_def map_of_SomeD)
  show "exception_class_of (MaterializerNotFound output_name t' (name (configuration self)))
           = StepInterfaceError"
    by simp
  {
    fix t assume "List.find (\<lambda>t. registry E t = None) (union_member_types ms) = Some t"
    with a have "finalize_output E self output_name (Union ms)
                   = Inl (MaterializerNotFound output_name t (name (configuration self)))"
      by simp
    from finalize_outputs_fails [OF in_set this, of "[]"]
    show "\<exists>e. finalize_configuration E self ia ea = Inl e"
      by (auto simp: finalize_configuration_def)
  }
  {
    fix t pre rest
    assume b: "List.find (\<lambda>t. registry E t = None) (union_member_types ms) = Some t
           \<and> efd_outputs (entrypoint_definition self) = pre @ (output_name, Union ms) # rest
           \<and> list_all (\<lambda>(m, b). \<exists>r. finalize_output E self m b = Inr r) pre"
    with a have "finalize_output E self output_name (Union ms)
                   = Inl (MaterializerNotFound output_name t (name (configuration self)))"
      by simp
    from finalize_outputs_first_failure [OF _ this, of pre rest "[]"] b
    show "finalize_configuration E self ia ea
               = Inl (MaterializerNotFound output_name t (name (configuration self)))"
      by (simp add: finalize_configuration_def)
  }
  {
    fix self' cfg assume fin: "finalize_configuration E self ia ea = Inr (self', cfg)"
    show none: "List.find (\<lambda>t. registry E t = None) (union_member_types ms) = None"
    proof (cases "List.find (\<lambda>t. registry E t = None) (union_member_types ms)")
      case None
      then show ?thesis .
    next
      case (Some t)
      with a have "finalize_output E self output_name (Union ms)
                   = Inl (MaterializerNotFound output_name t (name (configuration self)))"
        by simp
      from finalize_outputs_fails [OF in_set this, of "[]"] fin show ?thesis
        by (auto simp: finalize_configuration_def)
    qed
    with a have "finalize_output E self output_name (Union ms)
                   = Inr (Some (map (registered_source E) (union_member_types ms)))"
      by simp
    from finalize_configuration_outputs [OF fin out dist this]
    show "\<exists>c. dict_get (outputs cfg) output_name = Some c
               \<and> materializer_source c =
                   Some (map (registered_source E) (union_member_types ms))" .
  }
qed


lemmas finalize_defs =
  finalize_configuration_def StepConfiguration_parse_obj_def finalize_output_def output_types_def get_args_def
  is_none_type_def example_registry_def finalize_parameters_def
  get_step_entrypoint_signature_def is_step_context_param_def validate_inputs_def
  finalize_legacy_parameters_def empty_update_def example_step_def example_artifact_def
  caching_parameters_of_def materializer_source_hash_def get_hashed_source_code_def
  example_getsource_def BaseModel_def

theorem union_output_materializers_witness:
  "finalize_output example_env
      (example_step ''StepU'' [''x''] (Union [Class ''int'' [], NoneValue])) ''output''
      (Union [Class ''int'' [], NoneValue])
     = Inr (Some [''materializers.IntMaterializer'', ''materializers.NoneMaterializer''])
   \<and> (\<exists>self' cfg c.
         finalize_configuration example_env
           (example_step ''StepU'' [''x''] (Union [Class ''int'' [], NoneValue]))
           [(''x'', example_artifact ''a'')] [] = Inr (self', cfg)
       \<and> dict_get (outputs cfg) ''output'' = Some c
       \<and> materializer_source c
           = Some [''materializers.IntMaterializer'', ''materializers.NoneMaterializer''])
   \<and> finalize_output example_env
        (example_step ''StepU'' [''x''] (Union [Class ''int'' [], Class ''float'' []])) ''output''
        (Union [Class ''int'' [], Class ''float'' []])
       = Inl (MaterializerNotFound ''output'' (Class ''float'' []) ''StepU'')
   \<and> finalize_configuration example_env
         (example_step ''StepU'' [''x''] (Union [Class ''int'' [], Class ''float'' []]))
         [(''x'', example_artifact ''a'')] []
       = Inl (MaterializerNotFound ''output'' (Class ''float'' []) ''StepU'')"
proof -
  let ?ok = "example_step ''StepU'' [''x''] (Union [Class ''int'' [], NoneValue])"
  let ?bad = "example_step ''StepU'' [''x''] (Union [Class ''int'' [], Class ''float'' []])"
  let ?ia = "[(''x'', example_artifact ''a'')]"
  have ok1: "dict_get (efd_outputs (entrypoint_definition ?ok)) ''output''
               = Some (Union [Class ''int'' [], NoneValue])"
    by (simp add: example_step_def dict_get_def)
  have ok2: "distinct (dict_keys (efd_outputs (entrypoint_definition ?ok)))"
    by (simp add: example_step_def dict_keys_def)
  have ok3: "no_explicit_materializers ?ok ''output''"
    by (simp add: example_step_def no_explicit_materializers_def dict_get_def
          PartialStepConfiguration_def)
  have bad1: "dict_get (efd_outputs (entrypoint_definition ?bad)) ''output''
               = Some (Union [Class ''int'' [], Class ''float'' []])"
    by (simp add: example_step_def dict_get_def)
  have bad2: "distinct (dict_keys (efd_outputs (entrypoint_definition ?bad)))"
    by (simp add: example_step_def dict_keys_def)
  have bad3: "no_explicit_materializers ?bad ''output''"
    by (simp add: example_step_def no_explicit_materializers_def dict_get_def
          PartialStepConfiguration_def)
  have fin: "\<exists>self' cfg. finalize_configuration example_env ?ok ?ia [] = Inr (self', cfg)"
    by (simp add: finalize_defs configure_defs signature_defs PartialStepConfiguration_def
          Let_def)
  have types: "union_member_types [Class ''int'' [], NoneValue] = [Class ''int'' [], NoneType]"
    "union_member_types [Class ''int'' [], Class ''float'' []]
       = [Class ''int'' [], Class ''float'' []]"
    by (simp_all add: union_member_types_def origin_or_self_def is_none_type_def)
  have reg: "registry example_env (Class ''int'' []) = Some ''IntMaterializer''"
    "registry example_env NoneType = Some ''NoneMaterializer''"
    "registry example_env (Class ''float'' []) = None"
    "source_resolve example_env ''IntMaterializer'' = ''materializers.IntMaterializer''"
    "source_resolve example_env ''NoneMaterializer'' = ''materializers.NoneMaterializer''"
    by (simp_all add: example_env_def example_registry_def)
  have nm: "name (configuration ?bad) = ''StepU''"
    by (simp add: example_step_def PartialStepConfiguration_def)
  have out: "efd_outputs (entrypoint_definition ?bad)
               = [] @ (''output'', Union [Class ''int'' [], Class ''float'' []]) # []"
    by (simp add: example_step_def)
  note bad = union_output_materializers
    [OF bad1 bad2 bad3, where E = example_env and ia = "?ia" and ea = "[]"]
  from bad have
    "List.find (\<lambda>t. registry example_env t = None)
       (union_member_types [Class ''int'' [], Class ''float'' []]) = Some (Class ''float'' [])
     \<and> efd_outputs (entrypoint_definition ?bad)
         = [] @ (''output'', Union [Class ''int'' [], Class ''float'' []]) # []
     \<and> list_all (\<lambda>(m, b). \<exists>r. finalize_output example_env ?bad m b = Inr r) [] \<longrightarrow>
     finalize_configuration example_env ?bad ?ia []
       = Inl (MaterializerNotFound ''output'' (Class ''float'' []) (name (configuration ?bad)))"
    by blast
  then have failure: "finalize_configuration example_env ?bad ?ia []
       = Inl (MaterializerNotFound ''output'' (Class ''float'' []) ''StepU'')"
    by (simp add: out types reg nm)
  from union_output_materializers [OF ok1 ok2 ok3, where E = example_env and ia = "?ia" and ea = "[]"]
       bad fin failure
  show ?thesis
    by (auto simp: types reg nm registered_source_def)
qed

section \<open>Results: caching parameters\<close>

lemma caching_outputs_other:
  "\<forall>(n, output) \<in> set os. has_materializers output \<longrightarrow> n @ ''_materializer_source'' \<noteq> k \<Longrightarrow>
   dict_get (caching_outputs E os ps) k = dict_get ps k"
  by (induction os arbitrary: ps)
     (auto simp: dict_get_set has_materializers_def split: option.splits list.splits)

lemma caching_outputs_entry:
  "(n, output) \<in> set os \<Longrightarrow> distinct (map fst os) \<Longrightarrow> has_materializers output \<Longrightarrow>
   dict_get (caching_outputs E os ps) (n @ ''_materializer_source'')
     = Some (materializer_source_hash E (materializer_sources_of output))"
proof (induction os arbitrary: ps)
  case Nil
  then show ?case by simp
next
  case (Cons x os)
  obtain m b where x: "x = (m, b)" by (cases x)
  show ?case
  proof (cases "(n, output) = (m, b)")
    case True
    with Cons.prems x have "\<forall>(n', o') \<in> set os. has_materializers o' \<longrightarrow>
        n' @ ''_materializer_source'' \<noteq> n @ ''_materializer_source''"
      by (auto simp: rev_image_eqI)
    from caching_outputs_other [OF this] Cons.prems(3) True x show ?thesis
      by (auto simp: dict_get_set has_materializers_def materializer_sources_of_def
            split: option.splits list.splits)
  next
    case False
    with Cons.prems x have "(n, output) \<in> set os" "distinct (map fst os)" by auto
    from Cons.IH [OF this Cons.prems(3)] x show ?thesis
      by (auto split: option.splits list.splits)
  qed
qed

lemma caching_outputs_keys:
  "set (dict_keys (caching_outputs E os ps)) =
     set (dict_keys ps) \<union>
     {n @ ''_materializer_source'' | n output. (n, output) \<in> set os \<and> has_materializers output}"
proof (induction os arbitrary: ps)
  case Nil
  then show ?case by simp
next
  case (Cons x os)
  obtain m b where x: "x = (m, b)" by (cases x)
  have k: "\<And>d k v. set (dict_keys (dict_set d k v)) = insert k (set (dict_keys d))"
    by (simp add: dict_keys_def dict_set_def dom_update)
  show ?case
  proof (cases "has_materializers b")
    case True
    then obtain s ss where src: "materializer_source b = Some (s # ss)"
      by (cases "materializer_source b"; cases "the (materializer_source b)")
         (auto simp: has_materializers_def)
    have step: "caching_outputs E (x # os) ps =
        caching_outputs E os
          (dict_set ps (m @ ''_materializer_source'') (materializer_source_hash E (s # ss)))"
      by (simp add: x src)
    have sets: "{n @ ''_materializer_source'' | n output.
                  (n, output) \<in> set (x # os) \<and> has_materializers output} =
          insert (m @ ''_materializer_source'')
            {n @ ''_materializer_source'' | n output.
               (n, output) \<in> set os \<and> has_materializers output}"
      using True x by auto
    show ?thesis
      unfolding step Cons.IH k sets by auto
  next
    case False
    then have step: "caching_outputs E (x # os) ps = caching_outputs E os ps"
      by (auto simp: x has_materializers_def split: option.splits list.splits)
    have sets: "{n @ ''_materializer_source'' | n output.
                  (n, output) \<in> set (x # os) \<and> has_materializers output} =
            {n @ ''_materializer_source'' | n output.
               (n, output) \<in> set os \<and> has_materializers output}"
      using False x by auto
    show ?thesis
      unfolding step Cons.IH sets by simp
  qed
qed

lemma caching_outputs_cong:
  "output_sources os = output_sources os' \<Longrightarrow>
   caching_outputs E os ps = caching_outputs E os' ps"
proof (induction os arbitrary: os' ps)
  case Nil
  then show ?case by (simp add: output_sources_def)
next
  case (Cons x os)
  then obtain y os'' where os': "os' = y # os''" by (auto simp: output_sources_def)
  obtain m b where x: "x = (m, b)" by (cases x)
  obtain m' b' where y: "y = (m', b')" by (cases y)
  from Cons.prems os' x y have eq: "m = m'" "materializer_sources_of b = materializer_sources_of b'"
    "output_sources os = output_sources os''"
    by (auto simp: output_sources_def)
  from Cons.IH [OF eq(3)] eq(1,2) show ?case
    unfolding os' x y
    by (auto simp: materializer_sources_of_def split: option.splits list.splits)
qed


lemma materializer_key_not_source_key:
  "\<not> suffix ''_materializer_source'' k \<Longrightarrow> n @ ''_materializer_source'' \<noteq> k"
  by (auto simp: suffix_def)

text \<open>
  Claim C4. The caching parameters hold the hash of the step's source under the fixed
  source key and, for every configured output with at least one materializer source,
  the digest of the concatenated source hashes of its materializers, in order, under
  \<^verbatim>\<open>{name}_materializer_source\<close>, and nothing else; so two steps with the same source
  text and the same ordered materializer sources get the same mapping. The fixed source
  key is a constant of \<^verbatim>\<open>zenml.constants\<close>; it is taken not to end in
  \<^verbatim>\<open>_materializer_source\<close>, so that no output's key is the source key.
\<close>

theorem caching_parameters_contract:
  assumes dist: "distinct (dict_keys (outputs (configuration self)))"
    and key: "\<not> suffix ''_materializer_source'' (STEP_SOURCE_PARAMETER_NAME E)"
  shows
    "dict_get (caching_parameters_of E self) (STEP_SOURCE_PARAMETER_NAME E)
       = Some (content_hash E (getsource E (class_name self)))
     \<and> (\<forall>n output. (n, output) \<in> set (outputs (configuration self))
                     \<and> has_materializers output \<longrightarrow>
           dict_get (caching_parameters_of E self) (n @ ''_materializer_source'')
             = Some (md5_hexdigest E
                       (concat (map (\<lambda>s. content_hash E (getsource E (source_load E s)))
                                  (materializer_sources_of output)))))
     \<and> set (dict_keys (caching_parameters_of E self))
         = insert (STEP_SOURCE_PARAMETER_NAME E)
             {n @ ''_materializer_source'' | n output.
                (n, output) \<in> set (outputs (configuration self)) \<and> has_materializers output}
     \<and> (\<forall>other. getsource E (class_name other) = getsource E (class_name self)
                  \<and> output_sources (outputs (configuration other))
                      = output_sources (outputs (configuration self)) \<longrightarrow>
           caching_parameters_of E other = caching_parameters_of E self)"
proof (intro conjI allI impI)
  have "\<forall>(n, output) \<in> set (outputs (configuration self)). has_materializers output \<longrightarrow>
          n @ ''_materializer_source'' \<noteq> STEP_SOURCE_PARAMETER_NAME E"
    using materializer_key_not_source_key [OF key] by auto
  from caching_outputs_other [OF this]
  show "dict_get (caching_parameters_of E self) (STEP_SOURCE_PARAMETER_NAME E)
       = Some (content_hash E (getsource E (class_name self)))"
    by (simp add: caching_parameters_of_def dict_get_set get_hashed_source_code_def)
next
  fix n out
  assume a: "(n, out) \<in> set (outputs (configuration self)) \<and> has_materializers out"
  from dist have d: "distinct (map fst (outputs (configuration self)))"
    by (simp add: dict_keys_def)
  from a caching_outputs_entry [OF _ d]
  show "dict_get (caching_parameters_of E self) (n @ ''_materializer_source'')
             = Some (md5_hexdigest E
                       (concat (map (\<lambda>s. content_hash E (getsource E (source_load E s)))
                                  (materializer_sources_of out))))"
    by (simp add: caching_parameters_of_def materializer_source_hash_def
          get_hashed_source_code_def)
next
  have k: "\<And>d k v. set (dict_keys (dict_set d k v)) = insert k (set (dict_keys d))"
    by (simp add: dict_keys_def dict_set_def dom_update)
  show "set (dict_keys (caching_parameters_of E self))
         = insert (STEP_SOURCE_PARAMETER_NAME E)
             {n @ ''_materializer_source'' | n output.
                (n, output) \<in> set (outputs (configuration self)) \<and> has_materializers output}"
    unfolding caching_parameters_of_def caching_outputs_keys k
    by (simp add: dict_keys_def)
next
  fix other :: base_step
  assume "getsource E (class_name other) = getsource E (class_name self)
          \<and> output_sources (outputs (configuration other))
              = output_sources (outputs (configuration self))"
  then show "caching_parameters_of E other = caching_parameters_of E self"
    using caching_outputs_cong [of "outputs (configuration other)" "outputs (configuration self)"]
    by (simp add: caching_parameters_of_def get_hashed_source_code_def)
qed

theorem caching_parameters_contract_witness:
  "caching_parameters_of example_env
     (configured_step ''StepA''
        [''materializers.IntMaterializer'', ''materializers.StrMaterializer''])
     = [(''step_source'', ''sha:def entrypoint(): ...''),
        (''output_materializer_source'',
         ''md5:sha:class IntMaterializersha:class StrMaterializer'')]
   \<and> caching_parameters_of example_env
       (configured_step ''StepB''
          [''materializers.IntMaterializer'', ''materializers.StrMaterializer''])
     = caching_parameters_of example_env
         (configured_step ''StepA''
            [''materializers.IntMaterializer'', ''materializers.StrMaterializer''])
   \<and> dict_get (caching_parameters_of example_env
         (configured_step ''StepA''
            [''materializers.IntMaterializer'', ''materializers.StrMaterializer'']))
       ''step_source'' = Some ''sha:def entrypoint(): ...''"
proof -
  let ?a = "configured_step ''StepA''
              [''materializers.IntMaterializer'', ''materializers.StrMaterializer'']"
  have h1: "distinct (dict_keys (outputs (configuration ?a)))"
    by (simp add: configured_step_def dict_keys_def)
  have h2: "\<not> suffix ''_materializer_source'' (STEP_SOURCE_PARAMETER_NAME example_env)"
    by (simp add: example_env_def suffix_def)
  from caching_parameters_contract [OF h1 h2]
  show ?thesis
    by (simp add: caching_parameters_of_def configured_step_def example_step_def
          PartialStepConfiguration_def example_env_def example_getsource_def
          materializer_source_hash_def get_hashed_source_code_def dict_set_def dict_get_def)
qed

section \<open>Results: external artifacts\<close>

lemma get_materializer_world:
  "get_materializer E a w = (r, w') \<Longrightarrow>
   w' = w \<or> w' = record_call (RegistryLookup (type_of (ea_value a))) w"
  by (auto simp: get_materializer_def Let_def
        split: if_splits option.splits materializer_class_or_source.splits list.splits)

lemma get_materializer_calls:
  assumes "get_materializer E a w = (r, w')"
  shows "\<exists>pre. w' = w \<lparr> calls := calls w @ pre \<rparr> \<and> filter is_store_write pre = []"
proof -
  from get_materializer_world [OF assms]
  consider "w' = w" | "w' = record_call (RegistryLookup (type_of (ea_value a))) w" by blast
  then show ?thesis
  proof cases
    case 1
    then have "w' = w \<lparr> calls := calls w @ [] \<rparr> \<and> filter is_store_write [] = []"
      by simp
    then show ?thesis by blast
  next
    case 2
    then have "w' = w \<lparr> calls := calls w @ [RegistryLookup (type_of (ea_value a))] \<rparr>
        \<and> filter is_store_write [RegistryLookup (type_of (ea_value a))] = []"
      by (simp add: record_call_def)
    then show ?thesis by blast
  qed
qed


lemma do_something_upload:
  assumes "ea_id a = None" and "do_something E a w = (Inr (i, a'), w')"
  shows "\<exists>pre c uri r.
           a' = a \<lparr> ea_id := Some i \<rparr>
         \<and> map_of (zen_store w') i = Some r
         \<and> req_artifact_store_id r = active_artifact_store_id w
         \<and> active_artifact_store_id w' = active_artifact_store_id w
         \<and> filter is_store_write pre = []
         \<and> calls w' = calls w @ pre @
               [FileExists uri, MakeDirs uri, MaterializerSave c uri (ea_value a),
                CreateArtifact r]"
proof -
  obtain u w1 where u: "uuid4 w = (u, w1)" by (cases "uuid4 w")
  then have w1: "w1 = w \<lparr> uuid4_count := Suc (uuid4_count w) \<rparr>"
    by (auto simp: uuid4_def)
  obtain m w2 where m: "get_materializer E a w1 = (m, w2)" by (cases "get_materializer E a w1")
  from get_materializer_calls [OF m] obtain pre where
    w2: "w2 = w1 \<lparr> calls := calls w1 @ pre \<rparr>" and pre: "filter is_store_write pre = []"
    by blast
  from assms u m obtain c where c: "m = Inr c"
    by (cases m) (auto simp: do_something_def Let_def)
  define uri where "uri = active_artifact_store_path w2 @ ''/external_artifacts/'' @ ''external_'' @ u"
  define r where "r = \<lparr> req_name = ''external_'' @ u,
                        req_type = associated_artifact_type E c,
                        req_uri = uri,
                        req_materializer = source_resolve E c,
                        req_data_type = source_resolve E (type_name (type_of (ea_value a))),
                        req_user = active_user_id w,
                        req_workspace = active_workspace_id w,
                        req_artifact_store_id = active_artifact_store_id w \<rparr>"
  from assms u m c have
    "a' = a \<lparr> ea_id := Some i \<rparr>
     \<and> map_of (zen_store w') i = Some r
     \<and> req_artifact_store_id r = active_artifact_store_id w
     \<and> active_artifact_store_id w' = active_artifact_store_id w
     \<and> calls w' = calls w @ pre @
               [FileExists uri, MakeDirs uri, MaterializerSave c uri (ea_value a),
                CreateArtifact r]"
    unfolding do_something_def Let_def
    by (auto simp: w1 w2 uri_def r_def create_artifact_def record_call_def update_conv'
          split: if_splits)
  with pre show ?thesis by blast
qed


lemma do_something_resolved:
  assumes "ea_id a = Some i" and "map_of (zen_store w) i = Some r"
    and "req_artifact_store_id r = active_artifact_store_id w"
  shows "do_something E a w = (Inr (i, a), w \<lparr> calls := calls w @ [GetArtifact i] \<rparr>)"
  using assms
  by (simp add: do_something_def Let_def get_artifact_def record_call_def)

text \<open>
  Claim C3, as the code has it. Finalizing an external artifact built from a raw value
  writes once: the first finalization makes the directory, saves the value through the
  materializer and creates the artifact record, each once and in that order. A second
  finalization, in any later state that still holds the record and has the same active
  artifact store, returns the identifier the first one captured and writes nothing; it
  makes one call, the read \<^verbatim>\<open>get_artifact\<close> of the metadata store that checks the
  artifact store of the record.
\<close>

theorem do_something_twice:
  assumes raw: "ea_id a = None"
    and first: "do_something E a w = (Inr (i, a'), w')"
    and kept: "map_of (zen_store w2) i = map_of (zen_store w') i"
    and same_store: "active_artifact_store_id w2 = active_artifact_store_id w'"
  shows "do_something E a' w2 = (Inr (i, a'), w2 \<lparr> calls := calls w2 @ [GetArtifact i] \<rparr>)
       \<and> filter is_store_write (calls (snd (do_something E a' w2)))
           = filter is_store_write (calls w2)
       \<and> (\<exists>pre c uri r.
             filter is_store_write pre = []
           \<and> calls w' = calls w @ pre @
                 [FileExists uri, MakeDirs uri, MaterializerSave c uri (ea_value a),
                  CreateArtifact r])"
proof -
  from do_something_upload [OF raw first] obtain pre c uri r where
      a': "a' = a \<lparr> ea_id := Some i \<rparr>"
    and r: "map_of (zen_store w') i = Some r"
    and rs: "req_artifact_store_id r = active_artifact_store_id w"
    and st: "active_artifact_store_id w' = active_artifact_store_id w"
    and pre: "filter is_store_write pre = []"
    and calls: "calls w' = calls w @ pre @
               [FileExists uri, MakeDirs uri, MaterializerSave c uri (ea_value a),
                CreateArtifact r]"
    by blast
  have id: "ea_id a' = Some i" by (simp add: a')
  from r kept have r2: "map_of (zen_store w2) i = Some r" by simp
  from rs st same_store have rs2: "req_artifact_store_id r = active_artifact_store_id w2"
    by simp
  have second: "do_something E a' w2
                  = (Inr (i, a'), w2 \<lparr> calls := calls w2 @ [GetArtifact i] \<rparr>)"
    by (rule do_something_resolved [OF id r2 rs2])
  from second pre calls show ?thesis by auto
qed

lemmas external_defs =
  do_something_def get_materializer_def get_artifact_def create_artifact_def uuid4_def
  record_call_def example_world_def example_external_def example_env_def
  example_registry_def

lemma example_upload:
  "do_something example_env example_external example_world =
     (Inr (0, example_external \<lparr> ea_id := Some 0 \<rparr>),
      example_world
        \<lparr> zen_store :=
            [(0, \<lparr> req_name = ''external_u'', req_type = ''DataArtifact'',
                   req_uri = ''/store/external_artifacts/external_u'',
                   req_materializer = ''materializers.IntMaterializer'',
                   req_data_type = ''materializers.int'', req_user = 1, req_workspace = 2,
                   req_artifact_store_id = 7 \<rparr>)],
          existing_uris := [''/store/external_artifacts/external_u''],
          uuid4_count := 1, next_artifact_id := 1,
          calls :=
            [RegistryLookup (Class ''int'' []),
             FileExists ''/store/external_artifacts/external_u'',
             MakeDirs ''/store/external_artifacts/external_u'',
             MaterializerSave ''IntMaterializer'' ''/store/external_artifacts/external_u''
               (VInt 5),
             CreateArtifact
               \<lparr> req_name = ''external_u'', req_type = ''DataArtifact'',
                 req_uri = ''/store/external_artifacts/external_u'',
                 req_materializer = ''materializers.IntMaterializer'',
                 req_data_type = ''materializers.int'', req_user = 1, req_workspace = 2,
                 req_artifact_store_id = 7 \<rparr>] \<rparr>)"
  by (simp add: external_defs Let_def)

theorem do_something_twice_witness:
  "do_something example_env (example_external \<lparr> ea_id := Some 0 \<rparr>)
     (snd (do_something example_env example_external example_world))
   = (Inr (0, example_external \<lparr> ea_id := Some 0 \<rparr>),
      (snd (do_something example_env example_external example_world))
        \<lparr> calls := calls (snd (do_something example_env example_external example_world))
                    @ [GetArtifact 0] \<rparr>)
   \<and> filter is_store_write
         (calls (snd (do_something example_env example_external example_world)))
       = [MakeDirs ''/store/external_artifacts/external_u'',
          MaterializerSave ''IntMaterializer'' ''/store/external_artifacts/external_u''
            (VInt 5),
          CreateArtifact
            \<lparr> req_name = ''external_u'', req_type = ''DataArtifact'',
              req_uri = ''/store/external_artifacts/external_u'',
              req_materializer = ''materializers.IntMaterializer'',
              req_data_type = ''materializers.int'', req_user = 1, req_workspace = 2,
              req_artifact_store_id = 7 \<rparr>]"
proof -
  have raw: "ea_id example_external = None" by (simp add: example_external_def)
  have first: "do_something example_env example_external example_world =
     (Inr (0, example_external \<lparr> ea_id := Some 0 \<rparr>),
      snd (do_something example_env example_external example_world))"
    by (simp add: example_upload)
  from do_something_twice [OF raw first refl refl]
  show ?thesis
    by (simp add: example_upload)
qed

theorem do_something_twice_counterexample:
  "ea_id example_external = None
   \<and> fst (do_something example_env example_external example_world)
       = Inr (0, example_external \<lparr> ea_id := Some 0 \<rparr>)
   \<and> fst (do_something example_env (example_external \<lparr> ea_id := Some 0 \<rparr>)
            (snd (do_something example_env example_external example_world)))
       = Inr (0, example_external \<lparr> ea_id := Some 0 \<rparr>)
   \<and> calls (snd (do_something example_env (example_external \<lparr> ea_id := Some 0 \<rparr>)
                   (snd (do_something example_env example_external example_world))))
       = calls (snd (do_something example_env example_external example_world))
           @ [GetArtifact 0]"
  by (simp add: example_upload)
     (simp add: do_something_def get_artifact_def record_call_def example_external_def
        example_world_def Let_def)

section \<open>Results: upstream steps\<close>

lemma collect_upstream_steps_char:
  "collect_upstream_steps p us acc =
     (if list_ex (\<lambda>u. 1 < length (upstream_invocation_ids p u)) us
      then Inl AmbiguousUpstreamSteps
      else Inr (acc \<union> {i. \<exists>u \<in> set us. upstream_invocation_ids p u = [i]}))"
proof (induction us arbitrary: acc)
  case Nil
  then show ?case by simp
next
  case (Cons u us)
  show ?case
  proof (cases "remdups (map inv_id (invocations_of p u))")
    case Nil
    then show ?thesis
      by (auto simp: Cons.IH upstream_invocation_ids_def)
  next
    case (Cons i rest)
    note outer = this
    show ?thesis
    proof (cases rest)
      case Nil
      with outer show ?thesis
        by (auto simp: Cons.IH upstream_invocation_ids_def)
    next
      case (Cons j rest')
      with outer show ?thesis
        by (simp add: upstream_invocation_ids_def)
    qed
  qed
qed

lemma parse_bound_arguments_not_ambiguous:
  "parse_bound_arguments E self args a x ps \<noteq> Inl AmbiguousUpstreamSteps"
  by (induction args arbitrary: a x ps)
     (auto simp: validate_input_def split: sum.splits call_value.splits option.splits if_splits)

lemma step_call_not_ambiguous:
  "step_call E r self bound cid aft \<noteq> Inl AmbiguousUpstreamSteps"
  using parse_bound_arguments_not_ambiguous
  by (auto simp: step_call_def parse_call_args_def split: sum.splits option.splits)


text \<open>
  Claim C6, as the code has it. For an invocation of a step that was given upstream
  steps with \<^verbatim>\<open>after\<close>: when the step has more than one invocation in the pipeline,
  resolving the upstream steps raises the \<^verbatim>\<open>RuntimeError\<close>, and so does
  \<^verbatim>\<open>finalize\<close>; when it has at most one, resolution raises the same error if one of
  the steps given to \<^verbatim>\<open>after\<close> has invocations under more than one identifier, and
  otherwise returns the identifiers of the invocations of those steps. Calling the
  step (up to the \<^verbatim>\<open>add_step\<close> call) never raises this error.
\<close>

theorem upstream_steps_resolution:
  assumes hint: "upstream_steps (objects p (inv_step self)) \<noteq> []"
  shows "(1 < length (invocations_of p (inv_step self)) \<longrightarrow>
            get_and_validate_step_upstream_steps p self = Inl AmbiguousUpstreamSteps
          \<and> invocation_upstream_steps_of p self = Inl AmbiguousUpstreamSteps
          \<and> finalize E p self w = Inl AmbiguousUpstreamSteps)
       \<and> (length (invocations_of p (inv_step self)) \<le> 1 \<longrightarrow>
            get_and_validate_step_upstream_steps p self =
              (if list_ex (\<lambda>u. 1 < length (upstream_invocation_ids p u))
                    (upstream_steps (objects p (inv_step self)))
               then Inl AmbiguousUpstreamSteps
               else Inr {i. \<exists>u \<in> set (upstream_steps (objects p (inv_step self))).
                            upstream_invocation_ids p u = [i]}))
       \<and> exception_class_of AmbiguousUpstreamSteps = RuntimeError
       \<and> step_call E r s bound cid aft \<noteq> Inl AmbiguousUpstreamSteps"
  using hint step_call_not_ambiguous [of E r s bound cid aft]
  by (auto simp: get_and_validate_step_upstream_steps_def Let_def
        collect_upstream_steps_char invocation_upstream_steps_of_def finalize_def)

lemmas pipeline_defs =
  get_and_validate_step_upstream_steps_def invocations_of_def example_pipeline_def
  example_invocation_def after_def example_step_def upstream_invocation_ids_def

theorem upstream_steps_resolution_witness:
  "get_and_validate_step_upstream_steps (example_pipeline [(''a'', 0), (''b'', 1)])
     (example_invocation ''a'' 0) = Inr {''b''}
   \<and> get_and_validate_step_upstream_steps
       (example_pipeline [(''a'', 0), (''a_2'', 0), (''b'', 1)])
       (example_invocation ''a'' 0) = Inl AmbiguousUpstreamSteps"
proof -
  have h1: "upstream_steps (objects (example_pipeline [(''a'', 0), (''b'', 1)])
              (inv_step (example_invocation ''a'' 0))) \<noteq> []"
    by (simp add: pipeline_defs)
  have h2: "upstream_steps (objects (example_pipeline [(''a'', 0), (''a_2'', 0), (''b'', 1)])
              (inv_step (example_invocation ''a'' 0))) \<noteq> []"
    by (simp add: pipeline_defs)
  from upstream_steps_resolution [OF h1] upstream_steps_resolution [OF h2]
  show ?thesis
    by (simp add: pipeline_defs) 
qed

theorem upstream_steps_resolution_counterexample:
  "upstream_steps (objects (example_pipeline [(''a'', 0), (''b'', 1), (''b_2'', 1)])
     (inv_step (example_invocation ''a'' 0))) = [1]
   \<and> length (invocations_of (example_pipeline [(''a'', 0), (''b'', 1), (''b_2'', 1)])
               (inv_step (example_invocation ''a'' 0))) = 1
   \<and> get_and_validate_step_upstream_steps
       (example_pipeline [(''a'', 0), (''b'', 1), (''b_2'', 1)])
       (example_invocation ''a'' 0) = Inl AmbiguousUpstreamSteps"
  by (simp add: pipeline_defs Let_def)

section \<open>Results: finalized parameters\<close>

lemma finalize_parameter_items_get:
  "finalize_parameter_items E sg ps acc = Inr res \<Longrightarrow> distinct (map fst ps) \<Longrightarrow>
   dict_get res k =
     (case List.find (\<lambda>p. p_name p = k) sg of
        None \<Rightarrow> dict_get acc k
      | Some p \<Rightarrow>
          (case dict_get ps k of
             None \<Rightarrow> dict_get acc k
           | Some v \<Rightarrow>
               (case p_annotation p of
                  None \<Rightarrow> Some v
                | Some a \<Rightarrow> if issubclass a BaseModel then model_dict E a v else Some v)))"
proof (induction ps arbitrary: acc)
  case Nil
  then show ?case by (simp add: dict_get_Nil split: option.splits)
next
  case (Cons x ps)
  obtain key v where x: "x = (key, v)" by (cases x)
  from Cons.prems x have d: "distinct (map fst ps)" and notin: "key \<notin> fst ` set ps" by auto
  from notin have none: "dict_get ps key = None"
    by (simp add: dict_get_def map_of_eq_None_iff)
  note IH = Cons.IH [OF _ d]
  show ?case
  proof (cases "key = k")
    case True
    from none True have none': "dict_get ps k = None" by simp
    from Cons.prems(1) show ?thesis
      unfolding x True
      by (auto simp: dict_get_Cons dict_get_set none' dest!: IH
            split: option.splits if_splits)
  next
    case False
    from Cons.prems(1) False show ?thesis
      unfolding x
      by (auto simp: dict_get_Cons dict_get_set dest!: IH
            split: option.splits if_splits)
  qed
qed


lemma distinct_merge_dicts:
  "distinct (dict_keys d) \<Longrightarrow> distinct (dict_keys (merge_dicts f d u))"
proof (induction u arbitrary: d)
  case Nil
  then show ?case by (simp add: merge_dicts_def)
next
  case (Cons x u)
  obtain a b where x: "x = (a, b)" by (cases x)
  have step: "merge_dicts f d (x # u) =
      merge_dicts f (dict_set d a (case dict_get d a of None \<Rightarrow> b | Some old \<Rightarrow> f old b)) u"
    by (simp add: merge_dicts_def x)
  show ?case
    unfolding step by (rule Cons.IH) (rule distinct_dict_set [OF Cons.prems])
qed

lemma finalize_parameters_get:
  assumes fp: "finalize_parameters E self = Inr params"
    and dist: "distinct (dict_keys (parameters (configuration self)))"
    and plain: "plain_parameter self k"
  shows "dict_get params k = dict_get (parameters (configuration self)) k"
proof -
  from fp obtain res where
    items: "finalize_parameter_items E (get_step_entrypoint_signature self)
              (parameters (configuration self)) [] = Inr res"
    by (auto simp: finalize_parameters_def split: sum.splits)
  from dist have d: "distinct (map fst (parameters (configuration self)))"
    by (simp add: dict_keys_def)
  from plain obtain p where
    found: "List.find (\<lambda>p. p_name p = k) (get_step_entrypoint_signature self) = Some p"
    and ann: "case p_annotation p of None \<Rightarrow> True | Some a \<Rightarrow> \<not> issubclass a BaseModel"
    and legacy: "case efd_params (entrypoint_definition self) of
                   None \<Rightarrow> True | Some q \<Rightarrow> p_name q \<noteq> k"
    by (auto simp: plain_parameter_def split: option.splits)
  from finalize_parameter_items_get [OF items d, of k] found ann
  have res: "dict_get res k = dict_get (parameters (configuration self)) k"
    by (auto simp: dict_get_Nil split: option.splits)
  from fp items legacy have "dict_get params k = dict_get res k"
    by (auto simp: finalize_parameters_def dict_get_set split: sum.splits option.splits)
  with res show ?thesis by simp
qed

lemma finalize_configuration_parameters:
  assumes "finalize_configuration E self ia ea = Inr (self', cfg)"
  shows "\<exists>params. finalize_parameters E self = Inr params \<and> parameters cfg = params"
proof -
  from finalize_configuration_Inr [OF assms] obtain outs params self1 self2 where
      2: "finalize_parameters E self = Inr params"
    and 3: "configure E self (default_args \<lparr> arg_parameters := Some params, arg_merge := False \<rparr>)
             = Inr self1"
    and 5: "apply_configuration E self1
              (empty_update \<lparr> upd_outputs := (if outs = [] then None else Some outs) \<rparr>) True
             = Inr self2"
    and cfg: "cfg = (configuration self2)
                    \<lparr> caching_parameters := caching_parameters_of E self2,
                      external_input_artifacts := ea \<rparr>"
    by blast
  from configure_parameters_only [OF 3]
  have "parameters (configuration self1) = params"
    by (simp add: merge_mapping_def)
  moreover from apply_configuration_Inr [OF 5]
  have "parameters (configuration self2) = parameters (configuration self1)"
    by (simp add: update_model_outputs_only)
  ultimately show ?thesis using 2 cfg by simp
qed

lemma finalize_Inr:
  assumes "finalize E p invocation w = Inr (cfg, step', arts', w')"
  shows "\<exists>step1 ids.
           configure E (objects p (inv_step invocation))
             (default_args \<lparr> arg_parameters := Some (inv_parameters invocation), arg_merge := True \<rparr>)
             = Inr step1
         \<and> finalize_configuration E step1 (inv_input_artifacts invocation) ids = Inr (step', cfg)"
proof -
  have eq: "default_args \<lparr> arg_parameters := Some (inv_parameters invocation), arg_merge := True \<rparr>
            = default_args \<lparr> arg_parameters := Some (inv_parameters invocation) \<rparr>"
    by (simp add: default_args_def)
  note a = assms [unfolded finalize_def]
  have 1: "\<exists>ups. get_and_validate_step_upstream_steps p invocation = Inr ups"
    using a by (cases "get_and_validate_step_upstream_steps p invocation") simp_all
  then obtain ups where ups: "get_and_validate_step_upstream_steps p invocation = Inr ups" ..
  note a = a [unfolded ups sum.case]
  obtain step1 where 2: "configure E (objects p (inv_step invocation))
             (default_args \<lparr> arg_parameters := Some (inv_parameters invocation) \<rparr>) = Inr step1"
    using a
    by (cases "configure E (objects p (inv_step invocation))
             (default_args \<lparr> arg_parameters := Some (inv_parameters invocation) \<rparr>)") simp_all
  note a = a [unfolded 2 sum.case]
  obtain ids arts ww where 3:
    "finalize_external_artifacts E (inv_external_artifacts invocation) [] w = Inr (ids, arts, ww)"
    using a
    by (cases "finalize_external_artifacts E (inv_external_artifacts invocation) [] w") auto
  note a = a [unfolded 3 sum.case prod.case]
  have "finalize_configuration E step1 (inv_input_artifacts invocation) ids = Inr (step', cfg)"
    using a
    by (cases "finalize_configuration E step1 (inv_input_artifacts invocation) ids") auto
  with 2 eq show ?thesis by auto
qed


lemma finalize_parameters_other:
  assumes fp: "finalize_parameters E self = Inr params"
    and nosig: "k \<notin> set (map p_name (get_step_entrypoint_signature self))"
    and legacy: "\<forall>q. efd_params (entrypoint_definition self) = Some q \<longrightarrow> p_name q \<noteq> k"
  shows "dict_get params k = None"
proof -
  from fp obtain res where
    items: "finalize_parameter_items E (get_step_entrypoint_signature self)
              (parameters (configuration self)) [] = Inr res"
    by (auto simp: finalize_parameters_def split: sum.splits)
  from nosig have nf: "List.find (\<lambda>p. p_name p = k) (get_step_entrypoint_signature self) = None"
    by (auto simp: find_None_iff)
  have "\<And>ps acc. finalize_parameter_items E (get_step_entrypoint_signature self) ps acc = Inr res
          \<Longrightarrow> dict_get res k = dict_get acc k"
  proof -
    fix ps acc
    show "finalize_parameter_items E (get_step_entrypoint_signature self) ps acc = Inr res
          \<Longrightarrow> dict_get res k = dict_get acc k"
    proof (induction ps arbitrary: acc)
      case Nil
      then show ?case by simp
    next
      case (Cons x ps)
      obtain key v where x: "x = (key, v)" by (cases x)
      from Cons.prems nf show ?case
        unfolding x
        by (auto simp: dict_get_set dest!: Cons.IH split: option.splits if_splits)
    qed
  qed
  from this [OF items] have res: "dict_get res k = None" by (simp add: dict_get_Nil)
  from fp items legacy have "dict_get params k = dict_get res k"
    by (auto simp: finalize_parameters_def dict_get_set split: sum.splits option.splits)
  with res show ?thesis by simp
qed

lemma merge_value_replaces:
  "\<not> (is_mapping old \<and> is_mapping v) \<Longrightarrow> merge_value old v = v"
  by (cases old; cases v) simp_all

text \<open>
  Claim C2, as the code has it. \<^verbatim>\<open>finalize\<close> configures the step with the
  invocation's parameters with merging on, so the finalized \<^verbatim>\<open>parameters\<close> are
  the invocation's parameters merged key by key into the parameters the step was
  configured with before, restricted to the parameters of the entrypoint. For a key
  that names a plain entrypoint parameter: a value of the step's earlier configuration
  that the invocation does not pass is kept in the finalized configuration; a value
  the invocation passes is the finalized value when the step had none, or when the two
  values are not both mappings. A key that names no entrypoint parameter is dropped.
\<close>

theorem finalize_parameters_merged:
  assumes fin: "finalize E p invocation w = Inr (cfg, step', arts', w')"
    and d1: "distinct (dict_keys (parameters (configuration (objects p (inv_step invocation)))))"
    and d2: "distinct (dict_keys (inv_parameters invocation))"
  shows "(\<forall>k v. plain_parameter (objects p (inv_step invocation)) k
              \<and> dict_get (parameters (configuration (objects p (inv_step invocation)))) k = Some v
              \<and> dict_get (inv_parameters invocation) k = None \<longrightarrow>
            dict_get (parameters cfg) k = Some v)
       \<and> (\<forall>k v. plain_parameter (objects p (inv_step invocation)) k
              \<and> dict_get (inv_parameters invocation) k = Some v
              \<and> (\<forall>old. dict_get (parameters (configuration (objects p (inv_step invocation)))) k
                          = Some old \<longrightarrow> \<not> (is_mapping old \<and> is_mapping v)) \<longrightarrow>
            dict_get (parameters cfg) k = Some v)
       \<and> (\<forall>k. k \<notin> set (map p_name (get_step_entrypoint_signature (objects p (inv_step invocation))))
              \<and> (\<forall>q. efd_params (entrypoint_definition (objects p (inv_step invocation))) = Some q
                      \<longrightarrow> p_name q \<noteq> k) \<longrightarrow>
            dict_get (parameters cfg) k = None)"
proof -
  let ?step = "objects p (inv_step invocation)"
  from finalize_Inr [OF fin] obtain step1 ids where
      c: "configure E ?step
             (default_args \<lparr> arg_parameters := Some (inv_parameters invocation), arg_merge := True \<rparr>)
             = Inr step1"
    and f: "finalize_configuration E step1 (inv_input_artifacts invocation) ids = Inr (step', cfg)"
    by blast
  note s1 = configure_parameters_only [OF c]
  have merged: "parameters (configuration step1) =
      merge_dicts merge_value (parameters (configuration ?step)) (inv_parameters invocation)"
    by (simp add: s1 merge_mapping_def)
  have sg: "get_step_entrypoint_signature step1 = get_step_entrypoint_signature ?step"
    and efd: "entrypoint_definition step1 = entrypoint_definition ?step"
    by (simp_all add: s1 get_step_entrypoint_signature_def)
  have plain: "\<And>k. plain_parameter step1 k = plain_parameter ?step k"
    unfolding plain_parameter_def sg efd by (rule refl)
  from finalize_configuration_parameters [OF f] obtain params where
    fp: "finalize_parameters E step1 = Inr params" and cp: "parameters cfg = params"
    by blast
  have dm: "distinct (dict_keys (parameters (configuration step1)))"
    unfolding merged by (rule distinct_merge_dicts [OF d1])
  have merged_value: "dict_get (parameters cfg) k =
              (case dict_get (inv_parameters invocation) k of
                 None \<Rightarrow> dict_get (parameters (configuration ?step)) k
               | Some v \<Rightarrow>
                   (case dict_get (parameters (configuration ?step)) k of
                      None \<Rightarrow> Some v
                    | Some old \<Rightarrow> Some (merge_value old v)))"
    if "plain_parameter ?step k" for k
  proof -
    from that have "plain_parameter step1 k" by (simp add: plain)
    from finalize_parameters_get [OF fp dm this] show ?thesis
      by (simp add: cp merged dict_get_merge_dicts [OF d2])
  qed
  show ?thesis
  proof (intro conjI allI impI)
    fix k v
    assume "plain_parameter ?step k
              \<and> dict_get (parameters (configuration ?step)) k = Some v
              \<and> dict_get (inv_parameters invocation) k = None"
    with merged_value [of k] show "dict_get (parameters cfg) k = Some v" by simp
  next
    fix k v
    assume a: "plain_parameter ?step k
              \<and> dict_get (inv_parameters invocation) k = Some v
              \<and> (\<forall>old. dict_get (parameters (configuration ?step)) k = Some old
                      \<longrightarrow> \<not> (is_mapping old \<and> is_mapping v))"
    show "dict_get (parameters cfg) k = Some v"
    proof (cases "dict_get (parameters (configuration ?step)) k")
      case None
      with a merged_value [of k] show ?thesis by simp
    next
      case (Some old)
      with a have "merge_value old v = v" by (simp add: merge_value_replaces)
      with a Some merged_value [of k] show ?thesis by simp
    qed
  next
    fix k
    assume a: "k \<notin> set (map p_name (get_step_entrypoint_signature ?step))
              \<and> (\<forall>q. efd_params (entrypoint_definition ?step) = Some q \<longrightarrow> p_name q \<noteq> k)"
    then have "k \<notin> set (map p_name (get_step_entrypoint_signature step1))"
      and "\<forall>q. efd_params (entrypoint_definition step1) = Some q \<longrightarrow> p_name q \<noteq> k"
      by (simp_all add: sg efd)
    from finalize_parameters_other [OF fp this]
    show "dict_get (parameters cfg) k = None" by (simp add: cp)
  qed
qed

lemma parameter_finalize:
  "finalized_parameters (finalize example_env parameter_pipeline parameter_invocation example_world)
     = Some [(''x'', VInt 1), (''y'', VInt 2)]"
  by (simp add: finalized_parameters_def finalize_def parameter_pipeline_def
        parameter_invocation_def parameter_step_def pipeline_defs finalize_defs
        configure_defs signature_defs PartialStepConfiguration_def
        UnmaterializedArtifact_def Let_def)


theorem finalize_parameters_merged_witness:
  "\<exists>cfg rest.
     finalize example_env parameter_pipeline parameter_invocation example_world = Inr (cfg, rest)
   \<and> dict_get (parameters cfg) ''x'' = Some (VInt 1)
   \<and> dict_get (parameters cfg) ''y'' = Some (VInt 2)
   \<and> dict_get (parameters cfg) ''z'' = None"
proof -
  from parameter_finalize obtain cfg step' arts' w' where
    fin: "finalize example_env parameter_pipeline parameter_invocation example_world
            = Inr (cfg, step', arts', w')"
    by (auto simp: finalized_parameters_def split: sum.splits)
  have step: "objects parameter_pipeline (inv_step parameter_invocation) = parameter_step"
    by (simp add: parameter_pipeline_def)
  have d1: "distinct (dict_keys (parameters (configuration
              (objects parameter_pipeline (inv_step parameter_invocation)))))"
    by (simp add: step parameter_step_def dict_keys_def)
  have d2: "distinct (dict_keys (inv_parameters parameter_invocation))"
    by (simp add: parameter_invocation_def dict_keys_def)
  have plain: "plain_parameter parameter_step ''x''" "plain_parameter parameter_step ''y''"
    by (simp_all add: plain_parameter_def parameter_step_def example_step_def
          get_step_entrypoint_signature_def is_step_context_param_def int_parameter_def
          StepContext_def BaseModel_def)
  have z: "''z'' \<notin> set (map p_name (get_step_entrypoint_signature parameter_step))
           \<and> (\<forall>q. efd_params (entrypoint_definition parameter_step) = Some q
                   \<longrightarrow> p_name q \<noteq> ''z'')"
    by (simp add: parameter_step_def example_step_def
          get_step_entrypoint_signature_def is_step_context_param_def int_parameter_def
          StepContext_def)
  have vals: "dict_get (parameters (configuration parameter_step)) ''x'' = Some (VInt 1)"
    "dict_get (parameters (configuration parameter_step)) ''y'' = None"
    "dict_get (inv_parameters parameter_invocation) ''x'' = None"
    "dict_get (inv_parameters parameter_invocation) ''y'' = Some (VInt 2)"
    by (simp_all add: parameter_step_def parameter_invocation_def dict_get_def)
  note T = finalize_parameters_merged [OF fin d1 d2, unfolded step]
  from T plain(1) vals(1,3) have x: "dict_get (parameters cfg) ''x'' = Some (VInt 1)"
    by blast
  from T plain(2) vals(2,4) have y: "dict_get (parameters cfg) ''y'' = Some (VInt 2)"
    by auto
  from T z have zz: "dict_get (parameters cfg) ''z'' = None"
    by blast
  from fin x y zz show ?thesis by blast
qed

theorem finalize_parameters_replaced_counterexample:
  "dict_get (parameters (configuration
      (objects parameter_pipeline (inv_step parameter_invocation)))) ''x'' = Some (VInt 1)
   \<and> dict_get (inv_parameters parameter_invocation) ''x'' = None
   \<and> finalized_parameters
       (finalize example_env parameter_pipeline parameter_invocation example_world)
       = Some [(''x'', VInt 1), (''y'', VInt 2)]
   \<and> finalized_parameters
       (finalize example_env parameter_pipeline parameter_invocation example_world)
       \<noteq> Some (inv_parameters parameter_invocation)"
  by (simp add: parameter_finalize)
     (simp add: parameter_pipeline_def parameter_step_def parameter_invocation_def
        dict_get_def)

section \<open>Results: calling a step\<close>

text \<open>
  Claim C1. The upstream steps \<^verbatim>\<open>__call__\<close> passes to \<^verbatim>\<open>add_step\<close> are the
  invocations of the input artifacts, with the \<^verbatim>\<open>after\<close> identifier added when it
  is a single string. When \<^verbatim>\<open>after\<close> is a sequence, the source calls
  \<^verbatim>\<open>upstream_steps.union(after)\<close> and drops the set it returns: the identifiers of
  the sequence are not passed on. A step called with the artifact of the invocation
  \<^verbatim>\<open>up\<close> and \<^verbatim>\<open>after=["first", "second"]\<close> is registered with the upstream steps
  \<^verbatim>\<open>{"up"}\<close>.
\<close>

theorem step_call_after_sequence_dropped:
  "call_upstream_steps input_artifacts (AfterSequence xs)
     = (\<lambda>(key, artifact). sa_invocation_id artifact) ` set input_artifacts
   \<and> call_upstream_steps input_artifacts (AfterStr x)
     = insert x ((\<lambda>(key, artifact). sa_invocation_id artifact) ` set input_artifacts)
   \<and> step_call example_env 0 (example_step ''StepB'' [''x''] (Class ''int'' []))
       (Some [(''x'', ArtifactValue (example_artifact ''up''))]) None
       (AfterSequence [''first'', ''second''])
     = Inr \<lparr> as_step = 0,
             as_input_artifacts = [(''x'', example_artifact ''up'')],
             as_external_artifacts = [],
             as_parameters = [],
             as_upstream_steps = {''up''},
             as_custom_id = None,
             as_allow_suffix = True \<rparr>"
  by (simp add: call_upstream_steps_def Let_def step_call_def parse_call_args_def
        validate_input_def example_step_def example_artifact_def dict_get_def dict_set_def)

section \<open>Results: validating inputs\<close>

lemma validate_input_keys_char:
  "validate_input_keys keys ia ps ea =
     (case filter (\<lambda>key. \<not> (dict_contains key ia \<or> dict_contains key ps \<or> dict_contains key ea)) keys of
        [] \<Rightarrow> Inr ()
      | key # _ \<Rightarrow> Inl (MissingEntrypointInput key))"
  by (induction keys) auto

lemma validate_inputs_char:
  "validate_inputs self ia ea =
     (case unbound_inputs self ia ea of
        [] \<Rightarrow> Inr ()
      | key # _ \<Rightarrow> Inl (MissingEntrypointInput key))"
  by (simp add: validate_inputs_def validate_input_keys_char unbound_inputs_def
        input_is_bound_def)

section \<open>Results: inputs of the interface\<close>

lemma set_dict_keys_dict_set:
  "set (dict_keys (dict_set d k v)) = insert k (set (dict_keys d))"
  by (simp add: dict_keys_def dict_set_def dom_update)

lemma set_dict_keys_fold:
  "set (dict_keys (fold (\<lambda>(k, v) acc. dict_set acc k v) items acc))
     = set (dict_keys acc) \<union> fst ` set items"
  by (induction items arbitrary: acc) (auto simp: set_dict_keys_dict_set)

lemma set_dict_keys_dict_of_items:
  "set (dict_keys (dict_of_items items)) = fst ` set items"
  unfolding dict_of_items_def set_dict_keys_fold by (simp add: dict_keys_def)

lemma dict_contains_iff: "dict_contains k d = (dict_get d k \<noteq> None)"
  by (simp add: dict_contains_def dict_keys_def dict_get_def map_of_eq_None_iff)

lemma find_unique:
  "length (filter P xs) \<le> 1 \<Longrightarrow> x \<in> set xs \<Longrightarrow> P x \<Longrightarrow> List.find P xs = Some x"
proof (induction xs)
  case Nil
  then show ?case by simp
next
  case (Cons y ys)
  show ?case
  proof (cases "P y")
    case True
    with Cons.prems(1) have "filter P ys = []" by simp
    then have "\<forall>z \<in> set ys. \<not> P z" by (simp add: filter_empty_conv)
    with Cons.prems True show ?thesis by auto
  next
    case False
    with Cons show ?thesis by auto
  qed
qed

lemma validate_entrypoint_function_wf:
  assumes "validate_entrypoint_function sg [] = Inr efd"
  shows "well_formed_parameters (sig_parameters sg) None None"
proof (rule ccontr)
  assume "\<not> well_formed_parameters (sig_parameters sg) None None"
  from validate_parameters_bad [OF this, of "[]"] assms show False
    by (auto simp: validate_entrypoint_function_def)
qed

lemma interface_inputs_names:
  assumes wf: "validate_entrypoint_function (entrypoint self) [] = Inr (entrypoint_definition self)"
  shows "set (interface_inputs self)
           = p_name ` {p \<in> set (sig_parameters (entrypoint self)). is_input_parameter p}"
  using validate_entrypoint_function_Inr [OF wf]
  by (auto simp: interface_inputs_def full_interface_def set_dict_keys_dict_of_items
        image_iff)


lemma find_Some_mem: "List.find P xs = Some x \<Longrightarrow> x \<in> set xs \<and> P x"
  by (induction xs) (auto split: if_splits)

lemma checked_names:
  assumes wf: "validate_entrypoint_function (entrypoint self) [] = Inr (entrypoint_definition self)"
  shows "set (map p_name (get_step_entrypoint_signature self))
           = set (interface_inputs self)
             \<union> {p_name q | q. efd_params (entrypoint_definition self) = Some q
                              \<and> \<not> is_step_context_param (p_annotation q)}"
proof -
  let ?ps = "sig_parameters (entrypoint self)"
  note I = interface_inputs_names [OF wf]
  from validate_entrypoint_function_wf [OF wf] have
    ann: "\<forall>p \<in> set ?ps. p_annotation p \<noteq> None"
    and one: "length (filter is_parameter_object ?ps) \<le> 1"
    by (auto simp: well_formed_parameters_def list_ex_iff)
  from validate_entrypoint_function_Inr [OF wf] have
    prm: "efd_params (entrypoint_definition self) = List.find is_parameter_object ?ps"
    by (simp add: full_interface_def)
  have split: "is_input_parameter p \<or> is_parameter_object p"
    if "p \<in> set ?ps" "\<not> is_step_context_param (p_annotation p)" for p
    using that ann
    by (auto simp: is_input_parameter_def is_parameter_object_def is_context_parameter_def
          is_step_context_param_def split: option.splits)
  have inp: "\<not> is_step_context_param (p_annotation p)"
    if "p \<in> set ?ps" "is_input_parameter p" for p
    using that ann
    by (auto simp: is_input_parameter_def is_parameter_object_def is_context_parameter_def
          is_step_context_param_def split: option.splits)
  show ?thesis
  proof (intro equalityI subsetI)
    fix k assume "k \<in> set (map p_name (get_step_entrypoint_signature self))"
    then obtain p where p: "p \<in> set ?ps" "\<not> is_step_context_param (p_annotation p)"
      and k: "k = p_name p"
      by (auto simp: get_step_entrypoint_signature_def)
    from split [OF p] show "k \<in> set (interface_inputs self)
             \<union> {p_name q | q. efd_params (entrypoint_definition self) = Some q
                              \<and> \<not> is_step_context_param (p_annotation q)}"
    proof
      assume "is_input_parameter p"
      with p k show ?thesis by (auto simp: I)
    next
      assume "is_parameter_object p"
      from find_unique [OF one p(1) this] p k show ?thesis by (auto simp: prm)
    qed
  next
    fix k assume "k \<in> set (interface_inputs self)
             \<union> {p_name q | q. efd_params (entrypoint_definition self) = Some q
                              \<and> \<not> is_step_context_param (p_annotation q)}"
    then show "k \<in> set (map p_name (get_step_entrypoint_signature self))"
    proof
      assume "k \<in> set (interface_inputs self)"
      then obtain p where "p \<in> set ?ps" "is_input_parameter p" "k = p_name p"
        by (auto simp: I)
      with inp show ?thesis by (auto simp: get_step_entrypoint_signature_def)
    next
      assume "k \<in> {p_name q | q. efd_params (entrypoint_definition self) = Some q
                              \<and> \<not> is_step_context_param (p_annotation q)}"
      then obtain q where q: "List.find is_parameter_object ?ps = Some q"
        "\<not> is_step_context_param (p_annotation q)" "k = p_name q"
        by (auto simp: prm)
      from find_Some_mem [OF q(1)] q show ?thesis
        by (auto simp: get_step_entrypoint_signature_def)
    qed
  qed
qed

lemma validate_inputs_Inr_iff:
  "(validate_inputs self ia ea = Inr ())
     = (\<forall>k \<in> set (map p_name (get_step_entrypoint_signature self)). input_is_bound self ia ea k)"
proof (cases "unbound_inputs self ia ea")
  case Nil
  then have "\<forall>k \<in> set (map p_name (get_step_entrypoint_signature self)).
               input_is_bound self ia ea k"
    unfolding unbound_inputs_def filter_empty_conv by simp
  with Nil show ?thesis by (simp add: validate_inputs_char)
next
  case (Cons k ks)
  then have "k \<in> set (unbound_inputs self ia ea)" by simp
  then have "k \<in> set (map p_name (get_step_entrypoint_signature self))
         \<and> \<not> input_is_bound self ia ea k"
    by (auto simp: unbound_inputs_def)
  with Cons show ?thesis by (auto simp: validate_inputs_char)
qed

lemma validate_inputs_interface:
  assumes wf: "validate_entrypoint_function (entrypoint self) [] = Inr (entrypoint_definition self)"
  shows "(validate_inputs self ia ea = Inr ())
           = (list_all (input_is_bound self ia ea) (interface_inputs self)
              \<and> parameter_object_bound self ia ea)"
  unfolding validate_inputs_Inr_iff checked_names [OF wf]
  by (auto simp: list_all_iff parameter_object_bound_def split: option.splits)

lemma validate_inputs_failure:
  "validate_inputs self ia ea = Inr ()
   \<or> (\<exists>k. validate_inputs self ia ea = Inl (MissingEntrypointInput k)
         \<and> k \<in> set (map p_name (get_step_entrypoint_signature self))
         \<and> \<not> input_is_bound self ia ea k)"
proof (cases "unbound_inputs self ia ea")
  case Nil
  then show ?thesis by (simp add: validate_inputs_char)
next
  case (Cons k ks)
  then have "k \<in> set (unbound_inputs self ia ea)" by simp
  then have "k \<in> set (map p_name (get_step_entrypoint_signature self))
         \<and> \<not> input_is_bound self ia ea k"
    by (auto simp: unbound_inputs_def)
  with Cons show ?thesis by (simp add: validate_inputs_char)
qed


lemma finalize_parameter_items_keys:
  "finalize_parameter_items E sg ps acc = Inr res \<Longrightarrow>
   set (dict_keys res) =
     set (dict_keys acc) \<union> {k \<in> fst ` set ps. List.find (\<lambda>p. p_name p = k) sg \<noteq> None}"
proof (induction ps arbitrary: acc)
  case Nil
  then show ?case by simp
next
  case (Cons x ps)
  obtain key v where x: "x = (key, v)" by (cases x)
  show ?case
  proof (cases "List.find (\<lambda>p. p_name p = key) sg")
    case None
    with Cons.prems x have "finalize_parameter_items E sg ps acc = Inr res" by simp
    from Cons.IH [OF this] None x show ?thesis by auto
  next
    case (Some q)
    with Cons.prems x obtain w where
      "finalize_parameter_items E sg ps (dict_set acc key w) = Inr res"
      by (auto split: option.splits if_splits)
    from Cons.IH [OF this] Some x show ?thesis
      by (auto simp: set_dict_keys_dict_set)
  qed
qed

lemma finalize_parameters_keys:
  assumes fp: "finalize_parameters E self = Inr params"
  shows "set (dict_keys params) =
           {k \<in> set (dict_keys (parameters (configuration self))).
              k \<in> set (map p_name (get_step_entrypoint_signature self))}
           \<union> (case efd_params (entrypoint_definition self) of
                None \<Rightarrow> {} | Some q \<Rightarrow> {p_name q})"
proof -
  from fp obtain res where
    items: "finalize_parameter_items E (get_step_entrypoint_signature self)
              (parameters (configuration self)) [] = Inr res"
    by (auto simp: finalize_parameters_def split: sum.splits)
  have found: "(List.find (\<lambda>p. p_name p = k) (get_step_entrypoint_signature self) \<noteq> None)
                 = (k \<in> set (map p_name (get_step_entrypoint_signature self)))" for k
    by (auto simp: find_None_iff)
  from finalize_parameter_items_keys [OF items]
  have res: "set (dict_keys res) =
           {k \<in> set (dict_keys (parameters (configuration self))).
              k \<in> set (map p_name (get_step_entrypoint_signature self))}"
    unfolding found by (auto simp: dict_keys_def)
  show ?thesis
  proof (cases "efd_params (entrypoint_definition self)")
    case None
    with fp items have "params = res" by (simp add: finalize_parameters_def)
    with res None show ?thesis by simp
  next
    case (Some q)
    with fp items obtain legacy where "params = dict_set res (p_name q) (VDict legacy)"
      by (auto simp: finalize_parameters_def split: sum.splits)
    with res Some show ?thesis by (auto simp: set_dict_keys_dict_set)
  qed
qed

lemma input_not_parameter_object:
  assumes wf: "validate_entrypoint_function (entrypoint self) [] = Inr (entrypoint_definition self)"
    and dn: "distinct (map p_name (sig_parameters (entrypoint self)))"
    and k: "k \<in> set (interface_inputs self)"
    and q: "efd_params (entrypoint_definition self) = Some q"
  shows "p_name q \<noteq> k"
proof -
  let ?ps = "sig_parameters (entrypoint self)"
  from k obtain p where p: "p \<in> set ?ps" "is_input_parameter p" "k = p_name p"
    by (auto simp: interface_inputs_names [OF wf])
  from validate_entrypoint_function_Inr [OF wf] q have
    "List.find is_parameter_object ?ps = Some q"
    by (simp add: full_interface_def)
  from find_Some_mem [OF this] have qq: "q \<in> set ?ps" "is_parameter_object q" by simp_all
  with p have "p \<noteq> q" by (auto simp: is_input_parameter_def)
  moreover from dn have "inj_on p_name (set ?ps)" by (simp add: distinct_map)
  ultimately show ?thesis using p qq by (auto simp: inj_on_def)
qed


lemma finalized_step_inputs:
  assumes wf: "validate_entrypoint_function (entrypoint self) [] = Inr (entrypoint_definition self)"
    and dn: "distinct (map p_name (sig_parameters (entrypoint self)))"
    and fp: "finalize_parameters E self = Inr params"
    and cf: "configure E self
               (default_args \<lparr> arg_parameters := Some params, arg_merge := False \<rparr>) = Inr self1"
  shows "validate_entrypoint_function (entrypoint self1) [] = Inr (entrypoint_definition self1)"
    and "interface_inputs self1 = interface_inputs self"
    and "get_step_entrypoint_signature self1 = get_step_entrypoint_signature self"
    and "parameter_object_bound self1 ia ea"
    and "\<And>q. efd_params (entrypoint_definition self) = Some q \<Longrightarrow>
           input_is_bound self1 ia ea (p_name q)"
    and "\<And>k. k \<in> set (interface_inputs self) \<Longrightarrow>
           input_is_bound self1 ia ea k = input_is_bound self ia ea k"
proof -
  from configure_parameters_only [OF cf]
  have s1: "self1 = self \<lparr> configuration := (configuration self) \<lparr> parameters := params \<rparr> \<rparr>"
    by (simp add: merge_mapping_def)
  show wf1: "validate_entrypoint_function (entrypoint self1) [] = Inr (entrypoint_definition self1)"
    using wf by (simp add: s1)
  show "interface_inputs self1 = interface_inputs self"
    by (simp add: s1 interface_inputs_def)
  show "get_step_entrypoint_signature self1 = get_step_entrypoint_signature self"
    by (simp add: s1 get_step_entrypoint_signature_def)
  have ps: "parameters (configuration self1) = params" by (simp add: s1)
  have efd: "entrypoint_definition self1 = entrypoint_definition self" by (simp add: s1)
  note keys = finalize_parameters_keys [OF fp]
  show q_bound: "input_is_bound self1 ia ea (p_name q)"
    if "efd_params (entrypoint_definition self) = Some q" for q
    using that keys by (simp add: input_is_bound_def ps dict_contains_def)
  then show "parameter_object_bound self1 ia ea"
    by (auto simp: parameter_object_bound_def efd split: option.splits)
  show "input_is_bound self1 ia ea k = input_is_bound self ia ea k"
    if k: "k \<in> set (interface_inputs self)" for k
  proof -
    from k checked_names [OF wf]
    have chk: "k \<in> set (map p_name (get_step_entrypoint_signature self))" by blast
    have "(k \<in> set (dict_keys params))
            = (k \<in> set (dict_keys (parameters (configuration self))))"
    proof (cases "efd_params (entrypoint_definition self)")
      case None
      with keys chk show ?thesis by simp
    next
      case (Some q)
      from input_not_parameter_object [OF wf dn k Some] keys chk Some show ?thesis by auto
    qed
    then show ?thesis by (simp add: input_is_bound_def ps dict_contains_def)
  qed
qed

text \<open>
  Claim C8. For a step whose interface was derived from its entrypoint, the validation
  of inputs passes exactly when every input of the interface has a value (an input
  artifact, a configured parameter or an external artifact) and so has the parameter
  object where it is asked for one; it never asks for a value of the context
  parameter. When it fails it raises a \<^verbatim>\<open>StepInterfaceError\<close> naming an input
  without a value. In a finalization that reaches this validation, the parameter object
  has its finalized value: the validation passes when every interface input has a value,
  and otherwise finalization fails with the error naming an interface input that has
  none.
\<close>

theorem interface_inputs_validation:
  assumes wf: "validate_entrypoint_function (entrypoint self) [] = Inr (entrypoint_definition self)"
    and dn: "distinct (map p_name (sig_parameters (entrypoint self)))"
  shows "(validate_inputs self ia ea = Inr ())
           = (list_all (input_is_bound self ia ea) (interface_inputs self)
              \<and> parameter_object_bound self ia ea)
       \<and> (validate_inputs self ia ea = Inr ()
          \<or> (\<exists>k. validate_inputs self ia ea = Inl (MissingEntrypointInput k)
                \<and> \<not> input_is_bound self ia ea k))
       \<and> exception_class_of (MissingEntrypointInput key') = StepInterfaceError
       \<and> (\<forall>outs params self1.
             finalize_outputs E self (efd_outputs (entrypoint_definition self)) [] = Inr outs
           \<and> finalize_parameters E self = Inr params
           \<and> configure E self
                (default_args \<lparr> arg_parameters := Some params, arg_merge := False \<rparr>) = Inr self1
           \<longrightarrow>
             (list_all (input_is_bound self ia ea) (interface_inputs self) \<longrightarrow>
                validate_inputs self1 ia ea = Inr ())
           \<and> (\<not> list_all (input_is_bound self ia ea) (interface_inputs self) \<longrightarrow>
                (\<exists>k. k \<in> set (interface_inputs self)
                    \<and> \<not> input_is_bound self ia ea k
                    \<and> finalize_configuration E self ia ea = Inl (MissingEntrypointInput k))))"
proof (intro conjI allI impI)
  show "(validate_inputs self ia ea = Inr ())
           = (list_all (input_is_bound self ia ea) (interface_inputs self)
              \<and> parameter_object_bound self ia ea)"
    by (rule validate_inputs_interface [OF wf])
  show "validate_inputs self ia ea = Inr ()
          \<or> (\<exists>k. validate_inputs self ia ea = Inl (MissingEntrypointInput k)
                \<and> \<not> input_is_bound self ia ea k)"
    using validate_inputs_failure [of self ia ea] by blast
  show "exception_class_of (MissingEntrypointInput key') = StepInterfaceError"
    by simp
next
  fix outs params self1
  assume st: "finalize_outputs E self (efd_outputs (entrypoint_definition self)) [] = Inr outs
           \<and> finalize_parameters E self = Inr params
           \<and> configure E self
                (default_args \<lparr> arg_parameters := Some params, arg_merge := False \<rparr>) = Inr self1"
  then have fp: "finalize_parameters E self = Inr params"
    and cf: "configure E self
                (default_args \<lparr> arg_parameters := Some params, arg_merge := False \<rparr>) = Inr self1"
    by simp_all
  note F = finalized_step_inputs [OF wf dn fp cf]
  have all_eq: "list_all (input_is_bound self1 ia ea) (interface_inputs self)
                  = list_all (input_is_bound self ia ea) (interface_inputs self)"
    using F(6) by (auto simp: list_all_iff)
  have pass: "(validate_inputs self1 ia ea = Inr ())
                = list_all (input_is_bound self ia ea) (interface_inputs self)"
    using validate_inputs_interface [OF F(1), of ia ea] F(4) all_eq
    by (simp add: F(2))
  {
    assume "list_all (input_is_bound self ia ea) (interface_inputs self)"
    with pass show "validate_inputs self1 ia ea = Inr ()" by simp
  }
  {
    assume "\<not> list_all (input_is_bound self ia ea) (interface_inputs self)"
    with pass have "validate_inputs self1 ia ea \<noteq> Inr ()" by simp
    with validate_inputs_failure [of self1 ia ea] obtain k where
      v: "validate_inputs self1 ia ea = Inl (MissingEntrypointInput k)"
      and chk: "k \<in> set (map p_name (get_step_entrypoint_signature self))"
      and nb: "\<not> input_is_bound self1 ia ea k"
      by (auto simp: F(3))
    from chk checked_names [OF wf] nb F(5) have k: "k \<in> set (interface_inputs self)"
      by auto
    with nb F(6) have "\<not> input_is_bound self ia ea k" by simp
    moreover from st v have "finalize_configuration E self ia ea = Inl (MissingEntrypointInput k)"
      by (simp add: finalize_configuration_def)
    ultimately show "\<exists>k. k \<in> set (interface_inputs self)
                    \<and> \<not> input_is_bound self ia ea k
                    \<and> finalize_configuration E self ia ea = Inl (MissingEntrypointInput k)"
      using k by blast
  }
qed


theorem interface_inputs_validation_witness:
  "validate_inputs context_step [(''x'', example_artifact ''a'')] [] = Inr ()
   \<and> validate_inputs context_step [] [] = Inl (MissingEntrypointInput ''x'')
   \<and> finalize_configuration example_env context_step [] []
       = Inl (MissingEntrypointInput ''x'')
   \<and> (\<exists>r. finalize_configuration example_env context_step
              [(''x'', example_artifact ''a'')] [] = Inr r)"
proof -
  have wf: "validate_entrypoint_function (entrypoint context_step) []
              = Inr (entrypoint_definition context_step)"
    by (simp add: context_step_def signature_defs)
  have dn: "distinct (map p_name (sig_parameters (entrypoint context_step)))"
    by (simp add: context_step_def int_parameter_def context_parameter_def)
  have inputs: "interface_inputs context_step = [''x'']"
    by (simp add: interface_inputs_def context_step_def dict_keys_def)
  have pob: "parameter_object_bound context_step ia ea" for ia ea
    by (simp add: parameter_object_bound_def context_step_def)
  have bound: "input_is_bound context_step [(''x'', example_artifact ''a'')] [] ''x''"
    "\<not> input_is_bound context_step [] [] ''x''"
    by (simp_all add: input_is_bound_def context_step_def dict_contains_def dict_keys_def
          PartialStepConfiguration_def)
  note T = interface_inputs_validation [OF wf dn, where E = example_env]
  from T [where ia = "[(''x'', example_artifact ''a'')]" and ea = "[]"] bound(1)
  have a: "validate_inputs context_step [(''x'', example_artifact ''a'')] [] = Inr ()"
    by (simp add: inputs pob)
  from T [where ia = "[]" and ea = "[]"] bound(2)
  have "\<exists>k. validate_inputs context_step [] [] = Inl (MissingEntrypointInput k)"
    by (auto simp: inputs pob)
  then have b: "validate_inputs context_step [] [] = Inl (MissingEntrypointInput ''x'')"
    by (auto simp: validate_inputs_def get_step_entrypoint_signature_def context_step_def
          int_parameter_def context_parameter_def is_step_context_param_def StepContext_def
          dict_contains_def dict_keys_def PartialStepConfiguration_def)
  have c: "finalize_configuration example_env context_step [] []
             = Inl (MissingEntrypointInput ''x'')"
    by (simp add: finalize_defs configure_defs signature_defs PartialStepConfiguration_def
          context_step_def validate_input_keys_char Let_def)
  have d: "\<exists>r. finalize_configuration example_env context_step
              [(''x'', example_artifact ''a'')] [] = Inr r"
    by (simp add: finalize_defs configure_defs signature_defs PartialStepConfiguration_def
          context_step_def validate_input_keys_char Let_def)
  from a b c d show ?thesis by blast
qed

end
